theory Spec2Isabelle
  imports Complex_Main
begin

section \<open>Data model of app.js\<close>

text \<open>
  The client keeps one mutable object \<open>state\<close> and reads a handful of DOM controls.
  Both are gathered in the record \<open>app\<close>; every function of the source that mutates
  them becomes a function that returns the updated record.

  Strings are \<open>string\<close>: one \<open>char\<close> is one UTF-16 code unit below 256 of the
  JavaScript string, so that \<open>length\<close> and \<open>take\<close> count what \<open>length\<close> and \<open>slice\<close>
  count. Message ids are the numbers \<open>Date.now()\<close> returns (milliseconds since the
  epoch), session ids their decimal rendering.
\<close>

datatype role = User | Assistant | System

record message =
  mid :: nat
  role :: role
  content :: string
  isTransient :: bool

record session =
  sid :: string
  title :: string
  timestamp :: string
  smessages :: "message list"

text \<open>One search hit of \<open>POST /search\<close>.\<close>

record hit =
  h_title :: string
  h_href :: string
  h_body :: string

text \<open>An entry of the \<open>messages\<close> array sent to \<open>/api/chat\<close>.\<close>

record wire =
  w_role :: role
  w_content :: string

text \<open>
  Every \<open>fetch\<close> the modelled functions issue, with the JSON payload (or query
  parameters) it carries. The base URL \<open>state.backendUrl\<close> is the same for all of them
  and is left out.
\<close>

datatype request =
    SaveSessions "session list"
  | GenerateImage string string string
  | LoadImageModel string string
  | ImageSubfolders "string option"
  | Search string nat
  | Scrape string
  | Chat "wire list" string string string real int
  | SaveFile string string

text \<open>
  What the run of a turn leaves behind for an observer: the requests sent to the backend
  and the calls on the transcript, oldest first.
\<close>

datatype event =
    Sent request
  | Appended message
  | Updated nat string

text \<open>
  A JavaScript array holds references. \<open>[...xs]\<close> copies the array and not the message
  objects in it, so after \<open>session.messages = [...state.messages]\<close> or
  \<open>state.messages = [...session.messages]\<close> the transcript and the active session hold
  the same objects, and a message rewritten in place through one is rewritten in the
  other. The lists of the model hold values; the sharing is kept in \<open>shared\<close>: the
  number of leading entries of \<open>state.messages\<close> that are, position by position, the very
  objects in the \<open>messages\<close> array of the active session. The active session is the one
  \<open>find\<close> returns for \<open>state.currentSessionId\<close>, the first with that id. Pushing to the
  transcript leaves the number as it is; creating a session makes it zero (both arrays are
  new and empty), loading a session or recording a turn makes it the length of the array
  copied. Replacing the registry by the list the backend returns (\<open>syncSessions\<close>, which no
  turn calls) would make it zero as well.
\<close>

record app =
  ollamaUrl :: string
  modelId :: string
  inferenceMode :: string
  imageModelsPath :: string
  imageModelId :: string
  imageSubfolder :: string
  temperature :: real
  maxTokens :: int
  systemOverride :: string
  scriptMode :: bool
  targetLang :: string
  outputFilename :: string
  sessions :: "session list"
  currentSessionId :: "string option"
  messages :: "message list"
  isConnected :: bool
  isThinking :: bool
  dom_input :: string
  dom_imageToggle :: bool
  dom_webToggle :: bool
  dom_chromeToggle :: bool
  dom_helpHidden :: bool
  dom_contextHidden :: bool
  dom_sendDisabled :: bool
  shared :: nat
  trace :: "event list"

definition emit :: "event \<Rightarrow> app \<Rightarrow> app" where
  "emit e s = s\<lparr>trace := trace s @ [e]\<rparr>"

text \<open>The test \<open>s => s.id === state.currentSessionId\<close>.\<close>

definition is_current :: "string option \<Rightarrow> session \<Rightarrow> bool" where
  "is_current cur x = (cur = Some (sid x))"

section \<open>Transcript: addMessage and updateMessage\<close>

text \<open>
  \<^verbatim>\<open>
  function addMessage(role, content, isTransient = false) {
      const id = Date.now();
      state.messages.push({ id, role, content, isTransient });
      renderMessages();
      return id;
  }
  \<close>
  The reading of the clock is an input of the model (\<open>now\<close>). \<open>renderMessages\<close> and
  \<open>renderHistory\<close> rebuild the display from \<open>state\<close> and write nothing back to it; they
  have no counterpart here.
\<close>

definition addMessage :: "role \<Rightarrow> string \<Rightarrow> bool \<Rightarrow> nat \<Rightarrow> app \<Rightarrow> nat \<times> app" where
  "addMessage r c t now s =
     (let m = \<lparr>mid = now, role = r, content = c, isTransient = t\<rparr>
      in (now, emit (Appended m) (s\<lparr>messages := messages s @ [m]\<rparr>)))"

text \<open>
  \<open>Array.prototype.find\<close> returns the first element that satisfies the test, and the
  source then mutates that element in place: the first match is rewritten, later ones are
  left alone.
\<close>

fun update_first :: "('a \<Rightarrow> bool) \<Rightarrow> ('a \<Rightarrow> 'a) \<Rightarrow> 'a list \<Rightarrow> 'a list" where
  "update_first p f [] = []"
| "update_first p f (x # xs) = (if p x then f x # xs else x # update_first p f xs)"

text \<open>
  \<^verbatim>\<open>
  function updateMessage(id, content) {
      const msg = state.messages.find(m => m.id === id);
      if (msg) {
          msg.content = content;
          msg.isTransient = false;
          renderMessages();
      }
  }
  \<close>
  \<open>k\<close> is the position of the message found. When it lies within the part of the
  transcript shared with the active session, the object rewritten is also the \<open>k\<close>-th
  message of that session.
\<close>

definition updateMessage :: "nat \<Rightarrow> string \<Rightarrow> app \<Rightarrow> app" where
  "updateMessage i c s =
     (let s1 = emit (Updated i c) s
      in case find (\<lambda>m. mid m = i) (messages s1) of
           None \<Rightarrow> s1
         | Some msg \<Rightarrow>
             (let k = length (takeWhile (\<lambda>m. mid m \<noteq> i) (messages s1));
                  msg' = msg\<lparr>content := c, isTransient := False\<rparr>
              in s1\<lparr>messages := update_first (\<lambda>m. mid m = i)
                       (\<lambda>m. m\<lparr>content := c, isTransient := False\<rparr>) (messages s1),
                    sessions :=
                      (if k < shared s1
                       then update_first (is_current (currentSessionId s1))
                              (\<lambda>x. x\<lparr>smessages := (smessages x)[k := msg']\<rparr>) (sessions s1)
                       else sessions s1)\<rparr>))"

section \<open>Backend replies\<close>

text \<open>
  A \<open>fetch\<close> either rejects with an error (its \<open>message\<close> is kept), or resolves to a
  response with a status; \<open>res.json()\<close> on that response either rejects too (\<open>Inl\<close>, with
  the message) or yields the parsed body (\<open>Inr\<close>). Bodies are records of the fields the
  client reads; a field that is absent is \<open>None\<close>.
\<close>

datatype 'a fetched = Rejected string | Replied nat "string + 'a"

record image_body =
  i_image :: "string option"
  i_saved_to :: "string option"
  i_detail :: "string option"

record load_body =
  l_model :: string

record search_body =
  sr_results :: "hit list option"

record scrape_body =
  sc_content :: "string option"

text \<open>
  Of the reply of \<open>/api/chat\<close> the client reads \<open>data.message?.content\<close>,
  \<open>data.response\<close> and, on status 400, \<open>data.detail\<close> and \<open>data.message\<close>.
  \<open>c_detail\<close> is \<open>JSON.stringify(data.detail, null, 2)\<close> when \<open>data.detail\<close> is truthy
  and \<open>None\<close> otherwise; \<open>c_message\<close> is \<open>data.message\<close> as the template literal
  renders it.
\<close>

record chat_body =
  c_message_content :: "string option"
  c_response :: "string option"
  c_detail :: "string option"
  c_message :: "string option"

text \<open>Of the reply of \<open>/api/status\<close> the probe reads \<open>data.current_model\<close>.\<close>

record status_body =
  st_current_model :: "string option"

text \<open>
  The places where \<open>handleSend\<close> is suspended: the \<open>await\<close> of a request and of the
  reading of its reply. While the turn is suspended there, the periodic probe
  \<open>checkConnection\<close> may complete, any number of times.
\<close>

datatype await =
    AwaitGenerate | AwaitLoad | AwaitRetry | AwaitSearch | AwaitScrape | AwaitChat | AwaitSave

text \<open>
  Everything a turn takes from outside: the readings of the clock, one for each call of
  \<open>Date.now()\<close> (and the ISO rendering for \<open>new Date().toISOString()\<close>), the outcome of
  each request, consumed only if the code issues that request, and for each suspension the
  outcomes of the probes that complete during it, in their order.
\<close>

record env =
  now_session :: nat
  iso_session :: string
  now_user :: nat
  now_thinking :: nat
  gen1 :: "image_body fetched"
  load :: "load_body fetched"
  gen2 :: "image_body fetched"
  search :: "search_body fetched"
  scrape :: "nat \<Rightarrow> scrape_body fetched"
  chat :: "chat_body fetched"
  save :: "unit fetched"
  probes :: "await \<Rightarrow> status_body fetched list"

definition ok :: "nat \<Rightarrow> bool" where
  "ok st = (200 \<le> st \<and> st \<le> 299)"

text \<open>\<open>x || d\<close> on a string that may be absent: the empty string is falsy as well.\<close>

definition or_else :: "string option \<Rightarrow> string \<Rightarrow> string" where
  "or_else x d = (case x of None \<Rightarrow> d | Some v \<Rightarrow> if v = [] then d else v)"

definition truthy :: "string option \<Rightarrow> bool" where
  "truthy x = (case x of None \<Rightarrow> False | Some v \<Rightarrow> v \<noteq> [])"

text \<open>A template literal renders an absent field as the text \<open>undefined\<close>.\<close>

definition js_str :: "string option \<Rightarrow> string" where
  "js_str x = (case x of None \<Rightarrow> ''undefined'' | Some v \<Rightarrow> v)"

section \<open>ConnectionMonitor: checkConnection\<close>

text \<open>
  \<^verbatim>\<open>
  async function checkConnection() {
      try {
          const res = await fetch(`${state.backendUrl}/api/status`, { mode: 'cors' });
          const data = await res.json();
          state.isConnected = res.ok;
          ...
          if (data.current_model && state.inferenceMode === 'local') {
              dom.modelDisplay.innerText = data.current_model;
              state.modelId = data.current_model;
          }
      } catch (err) {
          state.isConnected = false;
          ...
      }
      ... the status dot and the footer ...
  }
  \<close>
  What a completed probe writes to \<open>state\<close>, given its outcome.
\<close>

definition checkConnection :: "status_body fetched \<Rightarrow> app \<Rightarrow> app" where
  "checkConnection r s =
     (case r of
        Rejected _ \<Rightarrow> s\<lparr>isConnected := False\<rparr>
      | Replied st b \<Rightarrow>
          (case b of
             Inl _ \<Rightarrow> s\<lparr>isConnected := False\<rparr>
           | Inr d \<Rightarrow>
               (let s1 = s\<lparr>isConnected := ok st\<rparr>
                in if truthy (st_current_model d) \<and> inferenceMode s1 = ''local''
                   then s1\<lparr>modelId := js_str (st_current_model d)\<rparr>
                   else s1)))"

fun probed :: "status_body fetched list \<Rightarrow> app \<Rightarrow> app" where
  "probed [] s = s"
| "probed (r # rs) s = probed rs (checkConnection r s)"

text \<open>The state when the turn resumes from a suspension.\<close>

definition suspended :: "await \<Rightarrow> env \<Rightarrow> app \<Rightarrow> app" where
  "suspended k e s = probed (probes e k) s"

section \<open>Strings\<close>

fun join :: "string \<Rightarrow> string list \<Rightarrow> string" where
  "join sep [] = []"
| "join sep [x] = x"
| "join sep (x # y # ys) = x @ sep @ join sep (y # ys)"

text \<open>\<open>Number.prototype.toString\<close> on a non-negative integer: its decimal digits.\<close>

function toString :: "nat \<Rightarrow> string" where
  "toString n =
     (if n < 10 then [char_of (48 + n)]
      else toString (n div 10) @ [char_of (48 + n mod 10)])"
  by pat_completeness auto
termination
  by (relation "measure (\<lambda>n. n)") auto

declare toString.simps [simp del]

text \<open>
  \<open>String.prototype.trim\<close> strips white space at both ends; of the characters a
  \<open>char\<close> can hold these are TAB, LF, VT, FF, CR, the space and the no-break space.
\<close>

definition is_space :: "char \<Rightarrow> bool" where
  "is_space c = (of_char c \<in> {9, 10, 11, 12, 13, 32, 160 :: nat})"

definition trim :: "string \<Rightarrow> string" where
  "trim s = rev (dropWhile is_space (rev (dropWhile is_space s)))"

section \<open>SessionStore: createNewSession, saveSessionsToBackend and the end of a turn\<close>

text \<open>
  \<^verbatim>\<open>
  async function saveSessionsToBackend() {
      if (!state.isConnected) return;
      try {
          await fetch(`${state.backendUrl}/sessions`, { method: 'POST', ...,
              body: JSON.stringify(state.sessions) });
      } catch (e) { console.error("Failed to save sessions to backend", e); }
  }
  \<close>
  No caller awaits it and its failure is only logged: the request is all it does.
\<close>

definition saveSessionsToBackend :: "app \<Rightarrow> app" where
  "saveSessionsToBackend s =
     (if isConnected s then emit (Sent (SaveSessions (sessions s))) s else s)"

text \<open>
  \<^verbatim>\<open>
  function createNewSession() {
      const id = Date.now().toString();
      const newSession = { id, title: "New Session",
          timestamp: new Date().toISOString(), messages: [] };
      state.sessions.unshift(newSession);
      state.currentSessionId = id;
      state.messages = [];
      renderMessages(); renderHistory();
      saveSessionsToBackend();
  }
  \<close>
\<close>

definition createNewSession :: "nat \<Rightarrow> string \<Rightarrow> app \<Rightarrow> app" where
  "createNewSession now stamp s =
     (let i = toString now;
          newSession = \<lparr>sid = i, title = ''New Session'', timestamp = stamp, smessages = []\<rparr>
      in saveSessionsToBackend
           (s\<lparr>sessions := newSession # sessions s, currentSessionId := Some i,
              messages := [], shared := 0\<rparr>))"

text \<open>A run of \<open>create()\<close> calls, one clock reading (and ISO stamp) for each.\<close>

fun creates :: "(nat \<times> string) list \<Rightarrow> app \<Rightarrow> app" where
  "creates [] s = s"
| "creates ((now, stamp) # cs) s = creates cs (createNewSession now stamp s)"

text \<open>
  \<^verbatim>\<open>
  function loadSession(id) {
      const session = state.sessions.find(s => s.id === id);
      if (session) {
          state.currentSessionId = id;
          state.messages = [...session.messages];
          renderMessages(); renderHistory();
      }
  }
  \<close>
\<close>

definition loadSession :: "string \<Rightarrow> app \<Rightarrow> app" where
  "loadSession i s =
     (case find (\<lambda>x. sid x = i) (sessions s) of
        None \<Rightarrow> s
      | Some x \<Rightarrow>
          s\<lparr>currentSessionId := Some i, messages := smessages x,
            shared := length (smessages x)\<rparr>)"

text \<open>
  The \<open>finally\<close> block of the chat branch of \<open>handleSend\<close>, which the specification
  calls \<open>recordTurn\<close>:
  \<^verbatim>\<open>
  state.isThinking = false;
  updateUIState();
  const session = state.sessions.find(s => s.id === state.currentSessionId);
  if (session) {
      session.messages = [...state.messages];
      if (session.title === "New Session" && state.messages.length >= 1)
          session.title = state.messages[0].content.slice(0, 30);
      saveSessionsToBackend();
      renderHistory();
  }
  \<close>
  \<open>updateUIState\<close> sets \<open>dom.sendBtn.disabled = state.isThinking\<close>.
\<close>

definition updateUIState :: "app \<Rightarrow> app" where
  "updateUIState s = s\<lparr>dom_sendDisabled := isThinking s\<rparr>"

definition retitle :: "message list \<Rightarrow> session \<Rightarrow> session" where
  "retitle ms x =
     (case ms of
        [] \<Rightarrow> x
      | m # _ \<Rightarrow> if title x = ''New Session'' then x\<lparr>title := take 30 (content m)\<rparr> else x)"

definition recordTurn :: "app \<Rightarrow> app" where
  "recordTurn s0 =
     (let s = updateUIState (s0\<lparr>isThinking := False\<rparr>)
      in case find (is_current (currentSessionId s)) (sessions s) of
           None \<Rightarrow> s
         | Some _ \<Rightarrow>
             saveSessionsToBackend
               (s\<lparr>sessions := update_first (is_current (currentSessionId s))
                      (\<lambda>x. retitle (messages s) (x\<lparr>smessages := messages s\<rparr>)) (sessions s),
                  shared := length (messages s)\<rparr>))"

section \<open>LazyModelLoader: loadImageModel\<close>

text \<open>
  \<^verbatim>\<open>
  async function loadImageModel(modelName) {
      if (!state.isConnected) return;
      try {
          const res = await fetch(`${state.backendUrl}/api/load-image-model`, { ...,
              body: JSON.stringify({ path: modelName, base_dir: state.imageModelsPath }) });
          if (res.ok) {
              const data = await res.json();
              state.imageModelId = data.model;
              localStorage.setItem('nexus_imageModelId', state.imageModelId);
          }
      } catch (e) { console.error("Image model load error", e); }
  }
  \<close>
  The mirror in \<open>localStorage\<close> is not part of the model. The guard reads
  \<open>state.isConnected\<close> as it is when the function is called; the reply is that of the
  load request of the turn.
\<close>

definition loadImageModel :: "string \<Rightarrow> env \<Rightarrow> app \<Rightarrow> app" where
  "loadImageModel modelName e s =
     (if isConnected s then
        (let s1 = suspended AwaitLoad e
                    (emit (Sent (LoadImageModel modelName (imageModelsPath s))) s)
         in case load e of
              Rejected _ \<Rightarrow> s1
            | Replied st b \<Rightarrow>
                (if ok st then (case b of Inl _ \<Rightarrow> s1 | Inr d \<Rightarrow> s1\<lparr>imageModelId := l_model d\<rparr>)
                 else s1))
      else s)"

text \<open>
  \<open>refreshImageSubfolders\<close> asks for the list of subfolders and redraws the chips from
  the reply; for the state only its request counts.
  \<^verbatim>\<open>
  if (!state.isConnected) return;
  try {
      const url = new URL(`${state.backendUrl}/api/image-subfolders`);
      if (state.imageModelsPath) url.searchParams.append('path', state.imageModelsPath);
      const res = await fetch(url);
      ...
  \<close>
\<close>

definition refreshImageSubfolders :: "app \<Rightarrow> app" where
  "refreshImageSubfolders s =
     (if isConnected s then
        emit (Sent (ImageSubfolders
          (if imageModelsPath s = [] then None else Some (imageModelsPath s)))) s
      else s)"

section \<open>RequestDispatcher: handleSend\<close>

subsection \<open>The texts written into the transcript\<close>

definition painting_html :: string where
  \<open>painting_html = ''<div class="flex items-center gap-2 mono text-xs text-pink-400"><div class="w-1.5 h-1.5 rounded-full bg-pink-400 animate-pulse"></div> Painting pixels...</div>''\<close>

definition thinking_html :: string where
  \<open>thinking_html = ''<div class="flex items-center gap-2 mono text-xs text-blue-400"><div class="w-1.5 h-1.5 rounded-full bg-blue-400 animate-pulse"></div> Thinking...</div>''\<close>

text \<open>
  The floppy-disk emoji of the save note lies outside the range of \<open>char\<close>; it is kept as
  the four bytes of its UTF-8 encoding.
\<close>

definition floppy_disk :: string where
  "floppy_disk = [char_of (0xF0 :: nat), char_of (0x9F :: nat), char_of (0x92 :: nat), char_of (0xBE :: nat)]"

definition connection_error :: "string \<Rightarrow> string" where
  "connection_error msg = ''## Connection Error\<newline>'' @ msg"

definition image_ok :: "string \<Rightarrow> image_body \<Rightarrow> string" where
  "image_ok text d =
     ''![Generated Image]('' @ js_str (i_image d) @ '')\<newline>\<newline>Prompt: *'' @ text @ ''*'' @
     (if truthy (i_saved_to d)
      then ''\<newline>\<newline>'' @ floppy_disk @ '' Saved to: `'' @ js_str (i_saved_to d) @ ''`''
      else [])"

definition image_failed :: "image_body \<Rightarrow> string" where
  "image_failed d = ''## Image Gen Failed\<newline>'' @ or_else (i_detail d) ''Unknown error''"

definition bad_request :: "chat_body \<Rightarrow> string" where
  "bad_request d =
     ''## 400 Bad Request\<newline>\<newline>**Details:**\<newline>```json\<newline>'' @
     (if truthy (c_detail d) then js_str (c_detail d)
      else or_else (c_message d) ''Unknown Validation Error'') @
     ''\<newline>```\<newline>\<newline>Check the backend console for the full request body trace.''"

text \<open>\<open>data.message?.content || data.response || "No response."\<close>\<close>

definition reply_content :: "chat_body \<Rightarrow> string" where
  "reply_content d = or_else (c_message_content d) (or_else (c_response d) ''No response.'')"

subsection \<open>The image branch\<close>

text \<open>
  \<^verbatim>\<open>
  const data = await res.json();
  if (res.ok) {
      const saveNote = data.saved_to ? `\n\n... Saved to: \`${data.saved_to}\`` : '';
      updateMessage(thinkingId, `![Generated Image](${data.image})\n\nPrompt: *${text}*${saveNote}`);
      dom.input.value = '';
      refreshImageSubfolders();
  } else {
      updateMessage(thinkingId, `## Image Gen Failed\n${data.detail || 'Unknown error'}`);
  }
  \<close>
  and, around it, \<open>catch (e) { updateMessage(thinkingId, `## Connection Error\n${e.message}`); }\<close>.
\<close>

definition image_reply :: "nat \<Rightarrow> string \<Rightarrow> image_body fetched \<Rightarrow> app \<Rightarrow> app" where
  "image_reply thinkingId text r s =
     (case r of
        Rejected msg \<Rightarrow> updateMessage thinkingId (connection_error msg) s
      | Replied st b \<Rightarrow>
          (case b of
             Inl msg \<Rightarrow> updateMessage thinkingId (connection_error msg) s
           | Inr d \<Rightarrow>
               if ok st
               then refreshImageSubfolders
                      ((updateMessage thinkingId (image_ok text d) s)\<lparr>dom_input := []\<rparr>)
               else updateMessage thinkingId (image_failed d) s))"

definition generate_image :: "string \<Rightarrow> app \<Rightarrow> app" where
  "generate_image text s =
     emit (Sent (GenerateImage text (imageSubfolder s) (imageModelsPath s))) s"

text \<open>
  \<^verbatim>\<open>
  const thinkingId = addMessage('assistant', '<div ...> Painting pixels...</div>', true);
  try {
      let res = await fetch(`${state.backendUrl}/api/generate-image`, ...);
      // If model not loaded, try auto-loading once if we have an ID
      if (res.status === 400 && state.imageModelId) {
          await loadImageModel(state.imageModelId);
          res = await fetch(`${state.backendUrl}/api/generate-image`, ...);
      }
      const data = await res.json();
      ...
  } catch (e) { ... } finally {
      state.isThinking = false;
      updateUIState();
  }
  return;
  \<close>
  The turn is suspended while a generate call is in flight and its reply is read; what it
  reads of \<open>state\<close> afterwards (the guards of \<open>loadImageModel\<close> and of
  \<open>refreshImageSubfolders\<close>) is what the probes have left.
\<close>

definition is_status :: "nat \<Rightarrow> 'a fetched \<Rightarrow> bool" where
  "is_status n r = (case r of Rejected _ \<Rightarrow> False | Replied st _ \<Rightarrow> st = n)"

definition handleSend_image :: "string \<Rightarrow> env \<Rightarrow> app \<Rightarrow> app" where
  "handleSend_image text e s0 =
     (case addMessage Assistant painting_html True (now_thinking e) s0 of
        (thinkingId, s1) \<Rightarrow>
          (let s2 = suspended AwaitGenerate e (generate_image text s1);
               s3 = (if is_status 400 (gen1 e) \<and> imageModelId s2 \<noteq> []
                     then image_reply thinkingId text (gen2 e)
                            (suspended AwaitRetry e
                               (generate_image text (loadImageModel (imageModelId s2) e s2)))
                     else image_reply thinkingId text (gen1 e) s2)
           in updateUIState (s3\<lparr>isThinking := False\<rparr>)))"

subsection \<open>Web augmentation\<close>

text \<open>
  \<^verbatim>\<open>
  let finalPromptForAI = text;
  if (dom.webToggle.checked) {
      dom.contextInfo.classList.remove('hidden');
      try {
          const searchRes = await fetch(`${state.backendUrl}/search`, { ...,
              body: JSON.stringify({ q: text, max_results: 8 }) });
          const { results } = await searchRes.json();
          if (results && results.length > 0) {
              let contextText = "";
              if (dom.chromeToggle.checked) {
                  const scrapePromises = results.slice(0, 2).map(r =>
                      fetch(`${state.backendUrl}/scrape?url=${encodeURIComponent(r.href)}&use_browser=true`)
                      .then(res => res.json()));
                  const scrapeResults = await Promise.all(scrapePromises);
                  contextText = scrapeResults.map((s, idx) =>
                      `Source: ${results[idx].title}\nContent: ${s.content || ""}`).join('\n\n---\n\n');
              } else {
                  contextText = results.map(r => `Source: ${r.title}\nSnippet: ${r.body}`).join('\n\n');
              }
              finalPromptForAI = `Context:\n${contextText}\n\nTask: ${text}`;
          }
      } catch (err) { console.error("Search failed", err); }
      finally { dom.contextInfo.classList.add('hidden'); }
  }
  \<close>
  Neither the status of the search reply nor that of a scrape reply is looked at: a reply
  counts as soon as its body parses. \<open>Promise.all\<close> rejects when one of the scrapes
  rejects, after every scrape request has been issued.
\<close>

definition shallow_context :: "hit list \<Rightarrow> string" where
  "shallow_context rs =
     join ''\<newline>\<newline>''
       (map (\<lambda>r. ''Source: '' @ h_title r @ ''\<newline>Snippet: '' @ h_body r) rs)"

text \<open>
  \<open>scrapeResults\<close> has one entry for each of the first two hits, in their order, so
  \<open>results[idx]\<close> is the hit the entry was fetched for.
\<close>

definition deep_context :: "hit list \<Rightarrow> scrape_body list \<Rightarrow> string" where
  "deep_context rs ss =
     join ''\<newline>\<newline>---\<newline>\<newline>''
       (map (\<lambda>(r, b). ''Source: '' @ h_title r @ ''\<newline>Content: '' @ or_else (sc_content b) [])
            (zip rs ss))"

definition with_context :: "string \<Rightarrow> string \<Rightarrow> string" where
  "with_context contextText text =
     ''Context:\<newline>'' @ contextText @ ''\<newline>\<newline>Task: '' @ text"

text \<open>The value \<open>Promise.all\<close> resolves to, or \<open>None\<close> when it rejects.\<close>

fun all_settled :: "'a fetched list \<Rightarrow> 'a list option" where
  "all_settled [] = Some []"
| "all_settled (Rejected _ # rs) = None"
| "all_settled (Replied st (Inl _) # rs) = None"
| "all_settled (Replied st (Inr b) # rs) = map_option (Cons b) (all_settled rs)"

fun scrape_requests :: "hit list \<Rightarrow> app \<Rightarrow> app" where
  "scrape_requests [] s = s"
| "scrape_requests (r # rs) s = scrape_requests rs (emit (Sent (Scrape (h_href r))) s)"

text \<open>The \<open>results\<close> that pass the test \<open>results && results.length > 0\<close>.\<close>

definition usable_results :: "search_body fetched \<Rightarrow> hit list" where
  "usable_results r =
     (case r of
        Rejected _ \<Rightarrow> []
      | Replied st b \<Rightarrow>
          (case b of Inl _ \<Rightarrow> [] | Inr d \<Rightarrow> (case sr_results d of None \<Rightarrow> [] | Some rs \<Rightarrow> rs)))"

definition augment :: "string \<Rightarrow> env \<Rightarrow> app \<Rightarrow> string \<times> app" where
  "augment text e s0 =
     (if dom_webToggle s0 then
        (let s1 = suspended AwaitSearch e
                    (emit (Sent (Search text 8)) (s0\<lparr>dom_contextHidden := False\<rparr>));
             rs = usable_results (search e);
             (p, s2) =
               (if rs = [] then (text, s1)
                else if dom_chromeToggle s1 then
                  (let top = take 2 rs;
                       s2 = suspended AwaitScrape e (scrape_requests top s1)
                   in case all_settled (map (scrape e) [0..<length top]) of
                        None \<Rightarrow> (text, s2)
                      | Some ss \<Rightarrow> (with_context (deep_context rs ss) text, s2))
                else (with_context (shallow_context rs) text, s1))
         in (p, s2\<lparr>dom_contextHidden := True\<rparr>))
      else (text, s0))"

subsection \<open>The outbound message list\<close>

text \<open>
  \<^verbatim>\<open>
  const conversationHistory = state.messages
      .filter(m => !m.isTransient)
      .map(m => {
          const isLatestUserMessage = m.id === userMsgId;
          return { role: m.role, content: isLatestUserMessage ? finalPromptForAI : m.content };
      });
  \<close>
\<close>

definition conversationHistory :: "nat \<Rightarrow> string \<Rightarrow> message list \<Rightarrow> wire list" where
  "conversationHistory userMsgId finalPromptForAI ms =
     map (\<lambda>m. \<lparr>w_role = role m,
                w_content = (if mid m = userMsgId then finalPromptForAI else content m)\<rparr>)
         (filter (\<lambda>m. \<not> isTransient m) ms)"

text \<open>
  \<^verbatim>\<open>
  const sys = state.scriptMode
      ? `You are a professional coder. Language: ${state.targetLang}. ${state.systemOverride}`
      : (state.systemOverride || "You are Nexus.");
  \<close>
\<close>

definition system_prompt :: "app \<Rightarrow> string" where
  "system_prompt s =
     (if scriptMode s
      then ''You are a professional coder. Language: '' @ targetLang s @ ''. '' @ systemOverride s
      else or_else (Some (systemOverride s)) ''You are Nexus.'')"

definition chat_request :: "wire list \<Rightarrow> app \<Rightarrow> request" where
  "chat_request history s =
     Chat (\<lparr>w_role = System, w_content = system_prompt s\<rparr> # history)
          (or_else (Some (modelId s)) ''llama3'')
          (inferenceMode s) (ollamaUrl s) (temperature s) (maxTokens s)"

subsection \<open>Extracting the script to save\<close>

text \<open>
  \<^verbatim>\<open>
  const code = content.match(/```(?:\w+)?\n([\s\S]*?)```/)?.[1] || content;
  \<close>
  The pattern is matched as the regular-expression engine does it. A match that starts at
  a given position needs three backticks there; \<open>(?:\w+)?\<close> then takes the longest run
  of word characters (a shorter run, or none where there is one, would leave a word
  character where the line feed is required); a line feed must follow; the lazy group takes
  the text up to the first three backticks that come after. The engine tries the start
  positions from left to right and returns the first match, or \<open>null\<close>.
\<close>

definition is_word_char :: "char \<Rightarrow> bool" where
  "is_word_char c =
     (let n = (of_char c :: nat)
      in (48 \<le> n \<and> n \<le> 57) \<or> (65 \<le> n \<and> n \<le> 90) \<or> n = 95 \<or> (97 \<le> n \<and> n \<le> 122))"

text \<open>\<open>([\s\S]*?)```\<close>: the text before the first closing fence, if there is one.\<close>

fun until_fence :: "string \<Rightarrow> string option" where
  "until_fence [] = None"
| "until_fence (c # cs) =
     (if take 3 (c # cs) = ''```'' then Some []
      else map_option (Cons c) (until_fence cs))"

definition match_here :: "string \<Rightarrow> string option" where
  "match_here s =
     (if take 3 s = ''```'' then
        (case dropWhile is_word_char (drop 3 s) of
           [] \<Rightarrow> None
         | c # body \<Rightarrow> if c = CHR 0x0A then until_fence body else None)
      else None)"

text \<open>Group 1 of the first match, \<open>None\<close> when \<open>match\<close> returns \<open>null\<close>.\<close>

fun fence_match :: "string \<Rightarrow> string option" where
  "fence_match [] = None"
| "fence_match (c # cs) =
     (case match_here (c # cs) of Some b \<Rightarrow> Some b | None \<Rightarrow> fence_match cs)"

definition extract_code :: "string \<Rightarrow> string" where
  "extract_code c = or_else (fence_match c) c"

subsection \<open>The chat branch\<close>

text \<open>
  \<^verbatim>\<open>
  const data = await response.json();
  if (response.status === 400) {
      const errorDetail = data.detail ? JSON.stringify(data.detail, null, 2)
                                      : (data.message || 'Unknown Validation Error');
      updateMessage(thinkingId, `## 400 Bad Request ...`);
      return;
  }
  const content = data.message?.content || data.response || "No response.";
  updateMessage(thinkingId, content);
  if (state.scriptMode && state.outputFilename) {
      const code = ...;
      await fetch(`${state.backendUrl}/save-file`, { ...,
          body: JSON.stringify({ filename: state.outputFilename, content: code }) });
  }
  \<close>
  all of it inside the \<open>try\<close> whose handler is
  \<open>catch (err) { updateMessage(thinkingId, `## Connection Error\n${err.message}`); }\<close>:
  a rejected save request lands there as well.
\<close>

definition save_script :: "nat \<Rightarrow> string \<Rightarrow> env \<Rightarrow> app \<Rightarrow> app" where
  "save_script thinkingId c e s =
     (if scriptMode s \<and> outputFilename s \<noteq> [] then
        (let s1 = suspended AwaitSave e
                    (emit (Sent (SaveFile (outputFilename s) (extract_code c))) s)
         in case save e of
              Rejected msg \<Rightarrow> updateMessage thinkingId (connection_error msg) s1
            | Replied _ _ \<Rightarrow> s1)
      else s)"

definition chat_reply :: "nat \<Rightarrow> env \<Rightarrow> app \<Rightarrow> app" where
  "chat_reply thinkingId e s =
     (case chat e of
        Rejected msg \<Rightarrow> updateMessage thinkingId (connection_error msg) s
      | Replied st b \<Rightarrow>
          (case b of
             Inl msg \<Rightarrow> updateMessage thinkingId (connection_error msg) s
           | Inr d \<Rightarrow>
               if st = 400 then updateMessage thinkingId (bad_request d) s
               else save_script thinkingId (reply_content d) e
                      (updateMessage thinkingId (reply_content d) s)))"

text \<open>
  \<^verbatim>\<open>
  const userMsgId = addMessage('user', text);
  ... augmentation ...
  const conversationHistory = ...;
  const thinkingId = addMessage('assistant', '<div ...> Thinking...</div>', true);
  try {
      const sys = ...;
      const fullMessages = [{ role: 'system', content: sys }, ...conversationHistory];
      const response = await fetch(`${state.backendUrl}/api/chat`, { ...,
          body: JSON.stringify({ messages: fullMessages, model: state.modelId || 'llama3',
              mode: state.inferenceMode, provider_url: state.ollamaUrl,
              temperature: state.temperature, max_tokens: state.maxTokens }) });
      ...
  } catch (err) { ... } finally { ... }
  \<close>
\<close>

definition chat_exchange :: "string \<Rightarrow> env \<Rightarrow> app \<Rightarrow> app" where
  "chat_exchange text e s0 =
     (case addMessage User text False (now_user e) s0 of
        (userMsgId, s1) \<Rightarrow>
          (case augment text e s1 of
             (finalPromptForAI, s2) \<Rightarrow>
               (let history = conversationHistory userMsgId finalPromptForAI (messages s2)
                in case addMessage Assistant thinking_html True (now_thinking e) s2 of
                     (thinkingId, s3) \<Rightarrow>
                       chat_reply thinkingId e
                         (suspended AwaitChat e
                            (emit (Sent (chat_request history s3)) s3)))))"

text \<open>The \<open>finally\<close> block runs after whatever the \<open>try\<close> and its \<open>catch\<close> did.\<close>

definition handleSend_chat :: "string \<Rightarrow> env \<Rightarrow> app \<Rightarrow> app" where
  "handleSend_chat text e s0 = recordTurn (chat_exchange text e s0)"

subsection \<open>The entry point\<close>

text \<open>
  \<^verbatim>\<open>
  async function handleSend() {
      const text = dom.input.value.trim();
      if (!text || state.isThinking) return;
      if (!state.isConnected) {
          dom.helpPanel.classList.remove('hidden');
          return;
      }
      if (!state.currentSessionId) createNewSession();
      dom.input.value = '';
      ...
      state.isThinking = true;
      updateUIState();
      if (dom.imageToggle.checked) { ... return; }
      ...
  }
  \<close>
  Nothing but the probe runs between the steps of a turn: the toggles and the settings
  are those the turn was accepted with.
\<close>

definition no_session :: "app \<Rightarrow> bool" where
  "no_session s = (case currentSessionId s of None \<Rightarrow> True | Some i \<Rightarrow> i = [])"

definition handleSend :: "env \<Rightarrow> app \<Rightarrow> app" where
  "handleSend e s0 =
     (let text = trim (dom_input s0)
      in if text = [] \<or> isThinking s0 then s0
         else if isConnected s0 then
           (let s1 = (if no_session s0
                      then createNewSession (now_session e) (iso_session e) s0 else s0);
                s2 = updateUIState (s1\<lparr>dom_input := [], isThinking := True\<rparr>)
            in if dom_imageToggle s2 then handleSend_image text e s2
               else handleSend_chat text e s2)
         else s0\<lparr>dom_helpHidden := False\<rparr>)"

section \<open>Observing a run\<close>

text \<open>
  The state the script starts from when \<open>localStorage\<close> is empty (the defaults of the
  \<open>state\<close> literal), with an empty input box, no toggle checked and both panels hidden.
\<close>

definition initial :: app where
  "initial = \<lparr>ollamaUrl = ''http://localhost:11434/api/chat'', modelId = ''llama3'',
     inferenceMode = ''proxy'', imageModelsPath = ''D:/images'', imageModelId = [],
     imageSubfolder = [], temperature = 0.7, maxTokens = 1024, systemOverride = [],
     scriptMode = False, targetLang = ''Roblox Lua'', outputFilename = [], sessions = [],
     currentSessionId = None, messages = [], isConnected = False, isThinking = False,
     dom_input = [], dom_imageToggle = False, dom_webToggle = False,
     dom_chromeToggle = False, dom_helpHidden = True, dom_contextHidden = True,
     dom_sendDisabled = False, shared = 0, trace = []\<rparr>"

text \<open>
  A turn is accepted when none of the three guards at the head of \<open>handleSend\<close> turns
  it away.
\<close>

definition accepted :: "app \<Rightarrow> bool" where
  "accepted s = (trim (dom_input s) \<noteq> [] \<and> \<not> isThinking s \<and> isConnected s)"

text \<open>The state in which an accepted turn enters its branch.\<close>

definition entered :: "env \<Rightarrow> app \<Rightarrow> app" where
  "entered e s =
     updateUIState
       ((if no_session s then createNewSession (now_session e) (iso_session e) s else s)
          \<lparr>dom_input := [], isThinking := True\<rparr>)"

text \<open>The two views of the trace: the calls on the transcript, and the requests.\<close>

fun transcript_call :: "event \<Rightarrow> bool" where
  "transcript_call (Sent _) = False"
| "transcript_call (Appended _) = True"
| "transcript_call (Updated _ _) = True"

definition transcript_calls :: "event list \<Rightarrow> event list" where
  "transcript_calls tr = filter transcript_call tr"

fun request_of :: "event \<Rightarrow> request list" where
  "request_of (Sent r) = [r]"
| "request_of (Appended _) = []"
| "request_of (Updated _ _) = []"

definition requests :: "event list \<Rightarrow> request list" where
  "requests tr = concat (map request_of tr)"

fun image_call :: "request \<Rightarrow> bool" where
  "image_call (GenerateImage _ _ _) = True"
| "image_call (LoadImageModel _ _) = True"
| "image_call _ = False"

fun generate_call :: "request \<Rightarrow> bool" where
  "generate_call (GenerateImage _ _ _) = True"
| "generate_call _ = False"

text \<open>The \<open>messages\<close> and the \<open>model\<close> fields of the chat requests, and the files saved.\<close>

fun chat_messages :: "request \<Rightarrow> wire list list" where
  "chat_messages (Chat ms _ _ _ _ _) = [ms]"
| "chat_messages _ = []"

fun chat_model :: "request \<Rightarrow> string list" where
  "chat_model (Chat _ m _ _ _ _) = [m]"
| "chat_model _ = []"

fun saved_file :: "request \<Rightarrow> (string \<times> string) list" where
  "saved_file (SaveFile name c) = [(name, c)]"
| "saved_file _ = []"

fun persisted :: "request \<Rightarrow> session list list" where
  "persisted (SaveSessions xs) = [xs]"
| "persisted _ = []"

definition sent_messages :: "event list \<Rightarrow> wire list list" where
  "sent_messages tr = concat (map chat_messages (requests tr))"

definition sent_models :: "event list \<Rightarrow> string list" where
  "sent_models tr = concat (map chat_model (requests tr))"

definition saved_files :: "event list \<Rightarrow> (string \<times> string) list" where
  "saved_files tr = concat (map saved_file (requests tr))"

definition persists :: "event list \<Rightarrow> session list list" where
  "persists tr = concat (map persisted (requests tr))"

definition image_calls :: "event list \<Rightarrow> request list" where
  "image_calls tr = filter image_call (requests tr)"

definition generate_calls :: "event list \<Rightarrow> request list" where
  "generate_calls tr = filter generate_call (requests tr)"

text \<open>What \<open>updateMessage\<close> makes of the transcript, and of the registry.\<close>

definition replaced :: "nat \<Rightarrow> string \<Rightarrow> message list \<Rightarrow> message list" where
  "replaced i c ms =
     update_first (\<lambda>m. mid m = i) (\<lambda>m. m\<lparr>content := c, isTransient := False\<rparr>) ms"

definition mirrored ::
  "string option \<Rightarrow> nat \<Rightarrow> message list \<Rightarrow> nat \<Rightarrow> string \<Rightarrow> session list \<Rightarrow> session list" where
  "mirrored cur sh ms i c xs =
     (case find (\<lambda>m. mid m = i) ms of
        None \<Rightarrow> xs
      | Some msg \<Rightarrow>
          if length (takeWhile (\<lambda>m. mid m \<noteq> i) ms) < sh
          then update_first (is_current cur)
                 (\<lambda>x. x\<lparr>smessages := (smessages x)
                        [length (takeWhile (\<lambda>m. mid m \<noteq> i) ms) :=
                           msg\<lparr>content := c, isTransient := False\<rparr>]\<rparr>) xs
          else xs)"

text \<open>
  The text the image branch writes for a given outcome of the generate call that counts,
  and whether that outcome is the success case.
\<close>

definition image_outcome :: "string \<Rightarrow> image_body fetched \<Rightarrow> string" where
  "image_outcome text r =
     (case r of
        Rejected msg \<Rightarrow> connection_error msg
      | Replied st b \<Rightarrow>
          (case b of
             Inl msg \<Rightarrow> connection_error msg
           | Inr d \<Rightarrow> if ok st then image_ok text d else image_failed d))"

definition succeeded :: "'a fetched \<Rightarrow> bool" where
  "succeeded r =
     (case r of Rejected _ \<Rightarrow> False
      | Replied st b \<Rightarrow> (case b of Inl _ \<Rightarrow> False | Inr _ \<Rightarrow> ok st))"

text \<open>A call failed when the fetch rejected or its reply could not be parsed.\<close>

definition failed :: "'a fetched \<Rightarrow> bool" where
  "failed r =
     (case r of Rejected _ \<Rightarrow> True
      | Replied st b \<Rightarrow> (case b of Inl _ \<Rightarrow> True | Inr _ \<Rightarrow> False))"

definition rejected :: "'a fetched \<Rightarrow> bool" where
  "rejected r = (case r of Rejected _ \<Rightarrow> True | Replied _ _ \<Rightarrow> False)"

text \<open>
  What a run of probes leaves in \<open>state.isConnected\<close> and in \<open>state.modelId\<close>: the flag
  is the success of the last probe, the model id the last model a probe reported while the
  client is in local mode.
\<close>

fun online :: "status_body fetched list \<Rightarrow> bool \<Rightarrow> bool" where
  "online [] b = b"
| "online (r # rs) b = online rs (succeeded r)"

definition reported :: "status_body fetched \<Rightarrow> string option" where
  "reported r =
     (case r of
        Rejected _ \<Rightarrow> None
      | Replied st b \<Rightarrow>
          (case b of
             Inl _ \<Rightarrow> None
           | Inr d \<Rightarrow> if truthy (st_current_model d) then st_current_model d else None))"

fun named :: "status_body fetched list \<Rightarrow> string \<Rightarrow> string \<Rightarrow> string" where
  "named [] mode m = m"
| "named (r # rs) mode m =
     named rs mode
       (case reported r of None \<Rightarrow> m | Some v \<Rightarrow> if mode = ''local'' then v else m)"

text \<open>
  The image branch: whether the generate call is repeated, the reply that decides the
  turn, and the placeholder it appends.
\<close>

definition retried :: "env \<Rightarrow> app \<Rightarrow> bool" where
  "retried e s = (is_status 400 (gen1 e) \<and> imageModelId s \<noteq> [])"

definition deciding :: "env \<Rightarrow> app \<Rightarrow> image_body fetched" where
  "deciding e s = (if retried e s then gen2 e else gen1 e)"

definition painting :: "env \<Rightarrow> message" where
  "painting e =
     \<lparr>mid = now_thinking e, role = Assistant, content = painting_html, isTransient = True\<rparr>"

text \<open>
  \<open>state.isConnected\<close> as the guard of \<open>loadImageModel\<close> reads it when the reply to the
  first generate call has arrived, and as the guard of \<open>refreshImageSubfolders\<close> reads it
  at the end of the branch.
\<close>

definition load_guard :: "env \<Rightarrow> app \<Rightarrow> bool" where
  "load_guard e s = online (probes e AwaitGenerate) (isConnected s)"

definition refresh_guard :: "env \<Rightarrow> app \<Rightarrow> bool" where
  "refresh_guard e s =
     (if retried e s
      then online (probes e AwaitRetry)
             (load_guard e s \<and> online (probes e AwaitLoad) (load_guard e s))
      else load_guard e s)"

text \<open>
  The chat branch: the two messages it appends, the text of the first update of the
  placeholder, and whether the reply is one that the script-saving step follows.
\<close>

definition asked :: "env \<Rightarrow> app \<Rightarrow> message" where
  "asked e s =
     \<lparr>mid = now_user e, role = User, content = trim (dom_input s), isTransient = False\<rparr>"

definition thinking :: "env \<Rightarrow> message" where
  "thinking e =
     \<lparr>mid = now_thinking e, role = Assistant, content = thinking_html, isTransient = True\<rparr>"

definition chat_outcome :: "chat_body fetched \<Rightarrow> string" where
  "chat_outcome r =
     (case r of
        Rejected msg \<Rightarrow> connection_error msg
      | Replied st b \<Rightarrow>
          (case b of
             Inl msg \<Rightarrow> connection_error msg
           | Inr d \<Rightarrow> if st = 400 then bad_request d else reply_content d))"

definition answered :: "chat_body fetched \<Rightarrow> bool" where
  "answered r =
     (case r of Rejected _ \<Rightarrow> False
      | Replied st b \<Rightarrow> (case b of Inl _ \<Rightarrow> False | Inr _ \<Rightarrow> st \<noteq> 400))"

definition saving :: "env \<Rightarrow> app \<Rightarrow> bool" where
  "saving e s = (answered (chat e) \<and> scriptMode s \<and> outputFilename s \<noteq> [])"

text \<open>
  \<open>state.modelId\<close> when the chat request is built: the probes that completed during the
  search and the page retrievals may have rewritten it.
\<close>

definition configured :: "env \<Rightarrow> app \<Rightarrow> string" where
  "configured e s =
     (if dom_webToggle s then
        named (probes e AwaitSearch @
               (if dom_chromeToggle s \<and> usable_results (search e) \<noteq> []
                then probes e AwaitScrape else []))
          (inferenceMode s) (modelId s)
      else modelId s)"

text \<open>The requests of the augmentation step.\<close>

definition web_requests :: "string \<Rightarrow> env \<Rightarrow> app \<Rightarrow> event list" where
  "web_requests text e s =
     (if dom_webToggle s then
        Sent (Search text 8) #
        (if dom_chromeToggle s
         then map (\<lambda>r. Sent (Scrape (h_href r))) (take 2 (usable_results (search e)))
         else [])
      else [])"

text \<open>The registry as the end of a chat turn leaves it.\<close>

definition recorded :: "string option \<Rightarrow> message list \<Rightarrow> session list \<Rightarrow> session list" where
  "recorded cur ms xs =
     update_first (is_current cur) (\<lambda>x. retitle ms (x\<lparr>smessages := ms\<rparr>)) xs"

text \<open>The prompt that takes the place of the user's text in the outbound list.\<close>

definition prompt_sent :: "string \<Rightarrow> env \<Rightarrow> app \<Rightarrow> string" where
  "prompt_sent text e s = fst (augment text e s)"

text \<open>The text of the second update, which a rejected save request causes.\<close>

definition save_error :: "env \<Rightarrow> string" where
  "save_error e = (case save e of Rejected msg \<Rightarrow> connection_error msg | Replied _ _ \<Rightarrow> [])"

section \<open>The script to save, in the words of the specification\<close>

text \<open>
  The specification has the dispatcher extract the first fenced code block of the final
  content, or take the whole content if no fenced block is present. A fenced block opens
  with three backticks; the rest of that line is its label; its body is the text after the
  line feed, up to the next three backticks. The first fenced block is the one the first
  three backticks of the text open. These definitions follow those words and not the
  source; \<open>extract_code\<close> is compared with them.
\<close>

fun spec_after_fence :: "string \<Rightarrow> string option" where
  "spec_after_fence [] = None"
| "spec_after_fence (c # cs) =
     (if take 3 (c # cs) = ''```'' then Some (drop 3 (c # cs)) else spec_after_fence cs)"

fun spec_body :: "string \<Rightarrow> string option" where
  "spec_body [] = None"
| "spec_body (c # cs) =
     (if take 3 (c # cs) = ''```'' then Some [] else map_option (Cons c) (spec_body cs))"

definition spec_first_fenced_block :: "string \<Rightarrow> (string \<times> string) option" where
  "spec_first_fenced_block c =
     (case spec_after_fence c of
        None \<Rightarrow> None
      | Some r \<Rightarrow>
          (case dropWhile (\<lambda>x. x \<noteq> CHR 0x0A) r of
             [] \<Rightarrow> None
           | _ # rest \<Rightarrow>
               map_option (Pair (takeWhile (\<lambda>x. x \<noteq> CHR 0x0A) r)) (spec_body rest)))"

definition spec_saved_content :: "string \<Rightarrow> string" where
  "spec_saved_content c =
     (case spec_first_fenced_block c of None \<Rightarrow> c | Some (label, body) \<Rightarrow> body)"

text \<open>
  The opening line of the first fenced block, if there is a block, carries after the three
  backticks nothing but word characters (letters, digits and the underscore), as in
  \<open>```lua\<close>, or nothing at all.
\<close>

definition word_label :: "string \<Rightarrow> bool" where
  "word_label c =
     (case spec_first_fenced_block c of
        None \<Rightarrow> True
      | Some (label, body) \<Rightarrow> list_all is_word_char label)"

section \<open>Concrete runs\<close>

text \<open>
  A connected client with a text in the input box, and a backend that answers nothing:
  every request is rejected. The clock advances between the three readings, and no probe
  completes during the turn.
\<close>

definition ready :: "string \<Rightarrow> app" where
  "ready text = initial\<lparr>isConnected := True, dom_input := text\<rparr>"

definition unanswered :: env where
  "unanswered =
     \<lparr>now_session = 1000, iso_session = ''2024-01-01T00:00:00.000Z'',
      now_user = 2000, now_thinking = 3000,
      gen1 = Rejected ''Failed to fetch'', load = Rejected ''Failed to fetch'',
      gen2 = Rejected ''Failed to fetch'', search = Rejected ''Failed to fetch'',
      scrape = (\<lambda>_. Rejected ''Failed to fetch''), chat = Rejected ''Failed to fetch'',
      save = Rejected ''Failed to fetch'', probes = (\<lambda>_. [])\<rparr>"

text \<open>
  An image turn whose first generate call finds no model loaded, and whose second attempt
  fails as well.
\<close>

definition absent_model :: env where
  "absent_model =
     unanswered
       \<lparr>gen1 := Replied 400 (Inr \<lparr>i_image = None, i_saved_to = None,
                                  i_detail = Some ''No image model loaded''\<rparr>),
        load := Replied 200 (Inr \<lparr>l_model = ''sd15.safetensors''\<rparr>),
        gen2 := Replied 500 (Inr \<lparr>i_image = None, i_saved_to = None,
                                  i_detail = Some ''out of memory''\<rparr>)\<rparr>"

definition painter :: app where
  "painter =
     (ready ''a red fox'')\<lparr>dom_imageToggle := True, imageModelId := ''sd15.safetensors''\<rparr>"

text \<open>The same turn, with a probe that fails while the first generate call is in flight.\<close>

definition dropped :: env where
  "dropped =
     absent_model\<lparr>probes := (probes absent_model)(AwaitGenerate := [Rejected ''Failed to fetch''])\<rparr>"

text \<open>
  The same turn in a loaded session that holds a message with the id the clock shows when
  the placeholder is appended.
\<close>

definition repainter :: app where
  "repainter =
     painter
       \<lparr>currentSessionId := Some ''400'',
        sessions := [\<lparr>sid = ''400'', title = ''a blue bird'',
                      timestamp = ''2024-01-01T00:00:00.000Z'',
                      smessages = [\<lparr>mid = 3000, role = Assistant,
                                    content = ''a blue bird'', isTransient = False\<rparr>]\<rparr>],
        messages := [\<lparr>mid = 3000, role = Assistant,
                      content = ''a blue bird'', isTransient = False\<rparr>],
        shared := 1\<rparr>"

text \<open>An image turn that succeeds at once.\<close>

definition painted :: env where
  "painted =
     unanswered
       \<lparr>gen1 := Replied 200 (Inr \<lparr>i_image = Some ''/images/fox.png'', i_saved_to = None,
                                  i_detail = None\<rparr>)\<rparr>"

text \<open>
  A chat turn inside a session that already holds an exchange (and a stale placeholder),
  with web augmentation on and one search hit.
\<close>

definition earlier :: "message list" where
  "earlier =
     [\<lparr>mid = 500, role = User, content = ''hi'', isTransient = False\<rparr>,
      \<lparr>mid = 600, role = Assistant, content = ''hello'', isTransient = False\<rparr>,
      \<lparr>mid = 700, role = Assistant, content = ''...'', isTransient = True\<rparr>]"

definition forecaster :: app where
  "forecaster =
     (ready ''weather today'')
       \<lparr>dom_webToggle := True, currentSessionId := Some ''400'',
        sessions := [\<lparr>sid = ''400'', title = ''hi'', timestamp = ''2024-01-01T00:00:00.000Z'',
                      smessages = earlier\<rparr>],
        messages := earlier, shared := 3\<rparr>"

text \<open>
  The same turn in a loaded session whose first message carries the id that the clock
  shows when the new message is appended.
\<close>

definition collided :: "message list" where
  "collided =
     [\<lparr>mid = 2000, role = User, content = ''old question'', isTransient = False\<rparr>,
      \<lparr>mid = 2100, role = Assistant, content = ''old answer'', isTransient = False\<rparr>]"

definition collider :: app where
  "collider =
     (ready ''weather today'')
       \<lparr>dom_webToggle := True, currentSessionId := Some ''400'',
        sessions := [\<lparr>sid = ''400'', title = ''old question'',
                      timestamp = ''2024-01-01T00:00:00.000Z'', smessages = collided\<rparr>],
        messages := collided, shared := 2\<rparr>"

definition one_hit :: env where
  "one_hit =
     unanswered
       \<lparr>search := Replied 200 (Inr \<lparr>sr_results =
          Some [\<lparr>h_title = ''WX'', h_href = ''https://wx.example'', h_body = ''Sunny''\<rparr>]\<rparr>)\<rparr>"

text \<open>The same search, in deep mode, with a page retrieval answered by an error status.\<close>

definition broken_page :: env where
  "broken_page =
     one_hit\<lparr>scrape := (\<lambda>_. Replied 500 (Inr \<lparr>sc_content = None\<rparr>))\<rparr>"

text \<open>A script turn: the reply holds a fenced block, the save request is answered.\<close>

definition scripter :: app where
  "scripter = (ready ''print one'')\<lparr>scriptMode := True, outputFilename := ''script.lua''\<rparr>"

definition replying :: "string \<Rightarrow> env" where
  "replying c =
     unanswered
       \<lparr>chat := Replied 200 (Inr \<lparr>c_message_content = Some c, c_response = None,
                                  c_detail = None, c_message = None\<rparr>),
        save := Replied 200 (Inr ())\<rparr>"

text \<open>A script turn whose reply arrives but whose save request is rejected.\<close>

definition unsaved :: env where
  "unsaved = (replying ''print(1)'')\<lparr>save := Rejected ''Failed to fetch''\<rparr>"

section \<open>Transcript ids\<close>

lemma update_first_none: "find p xs = None \<Longrightarrow> update_first p f xs = xs"
  by (induction xs) (auto split: if_splits)

lemma update_first_append_miss:
  "\<forall>x\<in>set xs. \<not> p x \<Longrightarrow> update_first p f (xs @ ys) = xs @ update_first p f ys"
  by (induction xs) auto

lemma messages_addMessage:
  "messages (snd (addMessage r c t now s)) =
     messages s @ [\<lparr>mid = now, role = r, content = c, isTransient = t\<rparr>]"
  by (simp add: addMessage_def emit_def Let_def)

lemma addMessage_returns_clock: "fst (addMessage r c t now s) = now"
  by (simp add: addMessage_def Let_def)

lemma messages_updateMessage:
  "messages (updateMessage i c s) =
     update_first (\<lambda>m. mid m = i) (\<lambda>m. m\<lparr>content := c, isTransient := False\<rparr>) (messages s)"
  by (simp add: updateMessage_def emit_def Let_def update_first_none split: option.splits)

text \<open>
  As long as the clock shows a value that no message of the transcript carries, \<open>append\<close>
  keeps the ids distinct and \<open>update\<close> rewrites the message just appended.
\<close>

lemma addMessage_fresh_distinct:
  assumes "distinct (map mid (messages s))" and "now \<notin> mid ` set (messages s)"
  shows "distinct (map mid (messages (snd (addMessage r c t now s))))"
  using assms by (simp add: messages_addMessage)

lemma update_after_fresh_append:
  assumes "now \<notin> mid ` set (messages s)"
  shows "messages (updateMessage now c' (snd (addMessage r c t now s))) =
           messages s @ [\<lparr>mid = now, role = r, content = c', isTransient = False\<rparr>]"
proof -
  have "\<forall>m\<in>set (messages s). \<not> mid m = now"
    using assms by auto
  then show ?thesis
    by (simp add: messages_updateMessage messages_addMessage update_first_append_miss)
qed

text \<open>
  Claim C3. \<open>Transcript.append\<close> is said to assign a fresh id every time, so that ids are
  pairwise distinct and \<open>update\<close> on a returned id yields exactly one message with that id,
  holding the new content and no longer transient. The id is the reading of the clock:
  two appends within the same millisecond, as the user message and the placeholder of one
  chat turn can be, return the same id. The transcript then holds two messages with that
  id, \<open>update\<close> rewrites the user's message, and the placeholder stays transient.
\<close>

theorem append_reuses_clock_reading:
  "(case addMessage User ''Hello'' False 1000 initial of
      (u, s1) \<Rightarrow>
        (case addMessage Assistant thinking_html True 1000 s1 of
           (a, s2) \<Rightarrow>
             u = a \<and> \<not> distinct (map mid (messages s2)) \<and>
             messages (updateMessage a ''Hi there'' s2) =
               [\<lparr>mid = 1000, role = User, content = ''Hi there'', isTransient = False\<rparr>,
                \<lparr>mid = 1000, role = Assistant, content = thinking_html, isTransient = True\<rparr>]))"
  by (simp add: addMessage_def updateMessage_def emit_def initial_def Let_def)

section \<open>Session ids\<close>

lemma toString_nonempty: "toString n \<noteq> []"
  by (subst toString.simps) simp

lemma digit_inj:
  "a < 10 \<Longrightarrow> b < 10 \<Longrightarrow> (char_of (48 + a :: nat) :: char) = char_of (48 + b) \<Longrightarrow> a = b"
  by (simp add: char_of_eq_iff take_bit_eq_mod)

lemma toString_inj: "toString m = toString n \<Longrightarrow> m = n"
proof (induction m arbitrary: n rule: toString.induct)
  case (1 m)
  show ?case
  proof (cases "m < 10")
    case small: True
    show ?thesis
    proof (cases "n < 10")
      case True
      with small "1.prems" show ?thesis
        by (simp add: toString.simps [of m] toString.simps [of n] digit_inj)
    next
      case False
      with small "1.prems" toString_nonempty [of "n div 10"] show ?thesis
        by (simp add: toString.simps [of m] toString.simps [of n])
    qed
  next
    case big: False
    show ?thesis
    proof (cases "n < 10")
      case True
      with big "1.prems" toString_nonempty [of "m div 10"] show ?thesis
        by (simp add: toString.simps [of m] toString.simps [of n])
    next
      case False
      with big "1.prems" have eq: "toString (m div 10) = toString (n div 10)"
        and d: "(char_of (48 + m mod 10) :: char) = char_of (48 + n mod 10)"
        by (simp_all add: toString.simps [of m] toString.simps [of n])
      from "1.IH" [OF big eq] have "m div 10 = n div 10" .
      moreover from d have "m mod 10 = n mod 10"
        by (intro digit_inj) simp_all
      ultimately show ?thesis
        by (metis div_mult_mod_eq)
    qed
  qed
qed

lemma sessions_create:
  "sessions (createNewSession now stamp s) =
     \<lparr>sid = toString now, title = ''New Session'', timestamp = stamp, smessages = []\<rparr>
       # sessions s"
  by (simp add: createNewSession_def saveSessionsToBackend_def emit_def Let_def)

lemma creates_snoc:
  "creates (cs @ [(now, stamp)]) s = createNewSession now stamp (creates cs s)"
  by (induction cs arbitrary: s) auto

text \<open>The session created last is the first of the registry, whatever the clock shows.\<close>

lemma creates_most_recent_first:
  "sessions (creates (cs @ [(now, stamp)]) s) =
     \<lparr>sid = toString now, title = ''New Session'', timestamp = stamp, smessages = []\<rparr>
       # sessions (creates cs s)"
  by (simp add: creates_snoc sessions_create)

lemma sids_creates:
  "map sid (sessions (creates cs s)) = rev (map (toString \<circ> fst) cs) @ map sid (sessions s)"
  by (induction cs arbitrary: s) (auto simp: sessions_create)

text \<open>Ids are unique when every \<open>create()\<close> reads a different clock value.\<close>

lemma creates_distinct_clock:
  assumes "distinct (map fst cs)" and "sessions s = []"
  shows "distinct (map sid (sessions (creates cs s)))"
  using assms by (simp add: sids_creates distinct_map inj_on_def toString_inj comp_def)

text \<open>
  Claim C4. For every sequence of \<open>create()\<close> calls the ids of the registry are said to be
  unique, with the newest session first. The newest session is first
  (\<open>creates_most_recent_first\<close>), but the id is nothing but the clock reading: two calls
  that read the same millisecond put two sessions with the same id into the registry.
\<close>

theorem create_twice_same_clock:
  "map sid (sessions (creates [(1000, ''2024-01-01T00:00:00.000Z''),
                               (1000, ''2024-01-01T00:00:00.000Z'')] initial)) =
     [''1000'', ''1000'']"
  by (simp add: sessions_create) code_simp

section \<open>What each function does to the state\<close>

text \<open>
  Each function of the dispatcher, written as one update of the state it receives: the
  fields it changes and the events it appends to the trace.
\<close>

lemma checkConnection_eq:
  "checkConnection r s =
     s\<lparr>modelId :=
         (case reported r of
            None \<Rightarrow> modelId s
          | Some v \<Rightarrow> if inferenceMode s = ''local'' then v else modelId s),
       isConnected := succeeded r\<rparr>"
  by (simp add: checkConnection_def reported_def succeeded_def truthy_def js_str_def Let_def
      split: fetched.splits sum.splits option.splits)

lemma probed_eq:
  "probed rs s =
     s\<lparr>modelId := named rs (inferenceMode s) (modelId s),
       isConnected := online rs (isConnected s)\<rparr>"
  by (induction rs arbitrary: s) (simp_all add: checkConnection_eq)

lemma suspended_eq:
  "suspended k e s =
     s\<lparr>modelId := named (probes e k) (inferenceMode s) (modelId s),
       isConnected := online (probes e k) (isConnected s)\<rparr>"
  by (simp add: suspended_def probed_eq)

lemma online_append: "online (rs @ rs') b = online rs' (online rs b)"
  by (induction rs arbitrary: b) simp_all

lemma named_append: "named (rs @ rs') mode m = named rs' mode (named rs mode m)"
  by (induction rs arbitrary: m) simp_all

lemma named_remote: "mode \<noteq> ''local'' \<Longrightarrow> named rs mode m = m"
  by (induction rs arbitrary: m) (simp_all split: option.splits)

lemma updateMessage_eq:
  "updateMessage i c s =
     s\<lparr>sessions := mirrored (currentSessionId s) (shared s) (messages s) i c (sessions s),
       messages := replaced i c (messages s),
       trace := trace s @ [Updated i c]\<rparr>"
  by (simp add: updateMessage_def emit_def replaced_def mirrored_def Let_def update_first_none
      split: option.splits)

lemma addMessage_eq:
  "addMessage r c t now s =
     (now, s\<lparr>messages := messages s @ [\<lparr>mid = now, role = r, content = c, isTransient = t\<rparr>],
             trace := trace s @ [Appended \<lparr>mid = now, role = r, content = c, isTransient = t\<rparr>]\<rparr>)"
  by (simp add: addMessage_def emit_def Let_def)

lemma saveSessionsToBackend_eq:
  "saveSessionsToBackend s =
     s\<lparr>trace := trace s @ (if isConnected s then [Sent (SaveSessions (sessions s))] else [])\<rparr>"
  by (simp add: saveSessionsToBackend_def emit_def)

lemma loadImageModel_eq:
  "loadImageModel m e s =
     s\<lparr>modelId :=
         (if isConnected s then named (probes e AwaitLoad) (inferenceMode s) (modelId s)
          else modelId s),
       imageModelId :=
         (if isConnected s \<and> succeeded (load e)
          then (case load e of Replied st (Inr d) \<Rightarrow> l_model d | _ \<Rightarrow> imageModelId s)
          else imageModelId s),
       isConnected := (if isConnected s then online (probes e AwaitLoad) True else False),
       trace := trace s @
         (if isConnected s then [Sent (LoadImageModel m (imageModelsPath s))] else [])\<rparr>"
  by (simp add: loadImageModel_def emit_def suspended_eq succeeded_def Let_def
      split: fetched.splits sum.splits)

lemma refreshImageSubfolders_eq:
  "refreshImageSubfolders s =
     s\<lparr>trace := trace s @
         (if isConnected s
          then [Sent (ImageSubfolders (if imageModelsPath s = [] then None else Some (imageModelsPath s)))]
          else [])\<rparr>"
  by (simp add: refreshImageSubfolders_def emit_def)

lemma image_reply_eq:
  "image_reply i text r s =
     s\<lparr>sessions :=
         mirrored (currentSessionId s) (shared s) (messages s) i (image_outcome text r) (sessions s),
       messages := replaced i (image_outcome text r) (messages s),
       dom_input := (if succeeded r then [] else dom_input s),
       trace := trace s @ Updated i (image_outcome text r) #
         (if succeeded r \<and> isConnected s
          then [Sent (ImageSubfolders (if imageModelsPath s = [] then None else Some (imageModelsPath s)))]
          else [])\<rparr>"
  by (simp add: image_reply_def updateMessage_eq refreshImageSubfolders_eq image_outcome_def
      succeeded_def split: fetched.splits sum.splits)

lemma trace_handleSend_image:
  "trace (handleSend_image text e s) =
     trace s @ [Appended (painting e), Sent (GenerateImage text (imageSubfolder s) (imageModelsPath s))] @
     (if retried e s
      then (if load_guard e s
            then [Sent (LoadImageModel (imageModelId s) (imageModelsPath s))] else []) @
           [Sent (GenerateImage text (imageSubfolder s) (imageModelsPath s))]
      else []) @
     [Updated (now_thinking e) (image_outcome text (deciding e s))] @
     (if succeeded (deciding e s) \<and> refresh_guard e s
      then [Sent (ImageSubfolders (if imageModelsPath s = [] then None else Some (imageModelsPath s)))]
      else [])"
  by (simp add: handleSend_image_def addMessage_eq generate_image_def emit_def suspended_eq
      loadImageModel_eq image_reply_eq updateUIState_def Let_def retried_def deciding_def
      painting_def load_guard_def refresh_guard_def)

lemma messages_handleSend_image:
  "messages (handleSend_image text e s) =
     replaced (now_thinking e) (image_outcome text (deciding e s)) (messages s @ [painting e])"
  by (simp add: handleSend_image_def addMessage_eq generate_image_def emit_def suspended_eq
      loadImageModel_eq image_reply_eq updateUIState_def Let_def retried_def deciding_def
      painting_def)

lemma sessions_handleSend_image:
  "sessions (handleSend_image text e s) =
     mirrored (currentSessionId s) (shared s) (messages s @ [painting e]) (now_thinking e)
       (image_outcome text (deciding e s)) (sessions s)"
  by (simp add: handleSend_image_def addMessage_eq generate_image_def emit_def suspended_eq
      loadImageModel_eq image_reply_eq updateUIState_def Let_def retried_def deciding_def
      painting_def)

lemma flags_handleSend_image:
  "isThinking (handleSend_image text e s) = False"
  "currentSessionId (handleSend_image text e s) = currentSessionId s"
  by (simp_all add: handleSend_image_def addMessage_eq generate_image_def emit_def suspended_eq
      loadImageModel_eq image_reply_eq updateUIState_def Let_def)

lemma scrape_requests_eq:
  "scrape_requests rs s = s\<lparr>trace := trace s @ map (\<lambda>r. Sent (Scrape (h_href r))) rs\<rparr>"
  by (induction rs arbitrary: s) (simp_all add: emit_def)

lemma snd_augment:
  "snd (augment text e s) =
     s\<lparr>modelId := configured e s,
       isConnected :=
         (if dom_webToggle s
          then online (probes e AwaitSearch @
                       (if dom_chromeToggle s \<and> usable_results (search e) \<noteq> []
                        then probes e AwaitScrape else []))
                 (isConnected s)
          else isConnected s),
       dom_contextHidden := (dom_webToggle s \<or> dom_contextHidden s),
       trace := trace s @ web_requests text e s\<rparr>"
  by (simp add: augment_def web_requests_def configured_def emit_def scrape_requests_eq
      suspended_eq online_append named_append Let_def split: option.splits)

lemma recordTurn_eq:
  "recordTurn s =
     s\<lparr>isThinking := False, dom_sendDisabled := False,
       sessions := recorded (currentSessionId s) (messages s) (sessions s),
       shared :=
         (if find (is_current (currentSessionId s)) (sessions s) \<noteq> None
          then length (messages s) else shared s),
       trace := trace s @
         (if find (is_current (currentSessionId s)) (sessions s) \<noteq> None \<and> isConnected s
          then [Sent (SaveSessions (recorded (currentSessionId s) (messages s) (sessions s)))]
          else [])\<rparr>"
  by (simp add: recordTurn_def updateUIState_def saveSessionsToBackend_eq Let_def
      update_first_none recorded_def split: option.splits)

lemma update_first_twice:
  assumes "\<And>x. p (f x) = p x"
  shows "update_first p g (update_first p f xs) = update_first p (\<lambda>x. g (f x)) xs"
  by (induction xs) (simp_all add: assms)

lemma find_update_first:
  assumes "\<And>x. p (f x) = p x"
  shows "(find p (update_first p f xs) = None) = (find p xs = None)"
  by (induction xs) (simp_all add: assms)

lemma recorded_mirrored:
  "recorded cur ms' (mirrored cur sh ms i c xs) = recorded cur ms' xs"
  by (simp add: recorded_def mirrored_def update_first_twice is_current_def
      split: option.splits)

lemma find_mirrored:
  "(find (is_current cur) (mirrored cur sh ms i c xs) = None) =
     (find (is_current cur) xs = None)"
  by (simp add: mirrored_def find_update_first is_current_def split: option.splits)

lemma save_script_eq:
  "save_script i c e s =
     s\<lparr>modelId :=
         (if scriptMode s \<and> outputFilename s \<noteq> []
          then named (probes e AwaitSave) (inferenceMode s) (modelId s) else modelId s),
       sessions :=
         (if scriptMode s \<and> outputFilename s \<noteq> [] \<and> rejected (save e)
          then mirrored (currentSessionId s) (shared s) (messages s) i (save_error e) (sessions s)
          else sessions s),
       messages :=
         (if scriptMode s \<and> outputFilename s \<noteq> [] \<and> rejected (save e)
          then replaced i (save_error e) (messages s)
          else messages s),
       isConnected :=
         (if scriptMode s \<and> outputFilename s \<noteq> []
          then online (probes e AwaitSave) (isConnected s) else isConnected s),
       trace := trace s @
         (if scriptMode s \<and> outputFilename s \<noteq> []
          then Sent (SaveFile (outputFilename s) (extract_code c)) #
               (if rejected (save e) then [Updated i (save_error e)] else [])
          else [])\<rparr>"
  by (simp add: save_script_def updateMessage_eq emit_def suspended_eq rejected_def
      save_error_def Let_def split: fetched.splits)

lemma chat_reply_eq:
  "chat_reply i e s =
     s\<lparr>modelId :=
         (if saving e s then named (probes e AwaitSave) (inferenceMode s) (modelId s)
          else modelId s),
       sessions :=
         (if saving e s \<and> rejected (save e)
          then mirrored (currentSessionId s) (shared s)
                 (replaced i (chat_outcome (chat e)) (messages s)) i (save_error e)
                 (mirrored (currentSessionId s) (shared s) (messages s) i
                    (chat_outcome (chat e)) (sessions s))
          else mirrored (currentSessionId s) (shared s) (messages s) i
                 (chat_outcome (chat e)) (sessions s)),
       messages :=
         (if saving e s \<and> rejected (save e)
          then replaced i (save_error e) (replaced i (chat_outcome (chat e)) (messages s))
          else replaced i (chat_outcome (chat e)) (messages s)),
       isConnected :=
         (if saving e s then online (probes e AwaitSave) (isConnected s) else isConnected s),
       trace := trace s @ Updated i (chat_outcome (chat e)) #
         (if saving e s
          then Sent (SaveFile (outputFilename s) (extract_code (chat_outcome (chat e)))) #
               (if rejected (save e) then [Updated i (save_error e)] else [])
          else [])\<rparr>"
  by (simp add: chat_reply_def updateMessage_eq save_script_eq chat_outcome_def saving_def
      answered_def split: fetched.splits sum.splits)

section \<open>The chat branch as a whole\<close>

lemma prompt_sent_eq:
  "prompt_sent text e s =
     (if dom_webToggle s \<and> usable_results (search e) \<noteq> [] then
        (if dom_chromeToggle s then
           (case all_settled (map (scrape e) [0..<length (take 2 (usable_results (search e)))]) of
              None \<Rightarrow> text
            | Some ss \<Rightarrow> with_context (deep_context (usable_results (search e)) ss) text)
         else with_context (shallow_context (usable_results (search e))) text)
      else text)"
  by (simp add: prompt_sent_def augment_def emit_def suspended_eq Let_def split: option.splits)

lemma asked_message:
  "fst (augment text e s) = prompt_sent text e s"
  by (simp add: prompt_sent_def)

lemma augment_frame:
  "web_requests text e (s\<lparr>messages := ms, trace := t\<rparr>) = web_requests text e s"
  "configured e (s\<lparr>messages := ms, trace := t\<rparr>) = configured e s"
  "prompt_sent text e (s\<lparr>messages := ms, trace := t\<rparr>) = prompt_sent text e s"
  by (simp_all add: web_requests_def configured_def prompt_sent_eq)

lemma messages_chat_exchange:
  "messages (chat_exchange text e s) =
     (if saving e s \<and> rejected (save e)
      then replaced (now_thinking e) (save_error e)
             (replaced (now_thinking e) (chat_outcome (chat e))
                (messages s @ [\<lparr>mid = now_user e, role = User, content = text, isTransient = False\<rparr>, thinking e]))
      else replaced (now_thinking e) (chat_outcome (chat e))
             (messages s @ [\<lparr>mid = now_user e, role = User, content = text, isTransient = False\<rparr>, thinking e]))"
  by (simp add: chat_exchange_def addMessage_eq case_prod_unfold snd_augment chat_reply_eq
      emit_def suspended_eq thinking_def saving_def Let_def)

lemma flags_chat_exchange:
  "dom_contextHidden (chat_exchange text e s) = (dom_webToggle s \<or> dom_contextHidden s)"
  "currentSessionId (chat_exchange text e s) = currentSessionId s"
  by (simp_all add: chat_exchange_def addMessage_eq case_prod_unfold snd_augment chat_reply_eq
      emit_def suspended_eq Let_def)

lemma registry_chat_exchange:
  "recorded (currentSessionId s) ms (sessions (chat_exchange text e s)) =
     recorded (currentSessionId s) ms (sessions s)"
  "(find (is_current (currentSessionId s)) (sessions (chat_exchange text e s)) = None) =
     (find (is_current (currentSessionId s)) (sessions s) = None)"
  by (simp_all add: chat_exchange_def addMessage_eq case_prod_unfold snd_augment chat_reply_eq
      emit_def suspended_eq Let_def recorded_mirrored find_mirrored)

lemma trace_chat_exchange:
  "trace (chat_exchange text e s) =
     trace s @
     [Appended \<lparr>mid = now_user e, role = User, content = text, isTransient = False\<rparr>] @
     web_requests text e s @
     [Appended (thinking e),
      Sent (chat_request
        (conversationHistory (now_user e) (prompt_sent text e s)
           (messages s @ [\<lparr>mid = now_user e, role = User, content = text, isTransient = False\<rparr>]))
        (s\<lparr>modelId := configured e s\<rparr>)),
      Updated (now_thinking e) (chat_outcome (chat e))] @
     (if saving e s
      then Sent (SaveFile (outputFilename s) (extract_code (chat_outcome (chat e)))) #
           (if rejected (save e) then [Updated (now_thinking e) (save_error e)] else [])
      else [])"
  by (simp add: chat_exchange_def addMessage_eq case_prod_unfold snd_augment chat_reply_eq
      emit_def suspended_eq thinking_def saving_def Let_def chat_request_def system_prompt_def
      asked_message augment_frame)

lemma messages_handleSend_chat:
  "messages (handleSend_chat text e s) = messages (chat_exchange text e s)"
  by (simp add: handleSend_chat_def recordTurn_eq)

lemma flags_handleSend_chat:
  "isThinking (handleSend_chat text e s) = False"
  "dom_contextHidden (handleSend_chat text e s) = (dom_webToggle s \<or> dom_contextHidden s)"
  "currentSessionId (handleSend_chat text e s) = currentSessionId s"
  "isConnected (handleSend_chat text e s) = isConnected (chat_exchange text e s)"
  by (simp_all add: handleSend_chat_def recordTurn_eq flags_chat_exchange)

lemma sessions_handleSend_chat:
  "sessions (handleSend_chat text e s) =
     recorded (currentSessionId s) (messages (handleSend_chat text e s)) (sessions s)"
  by (simp add: handleSend_chat_def recordTurn_eq flags_chat_exchange registry_chat_exchange)

lemma trace_handleSend_chat:
  "trace (handleSend_chat text e s) =
     trace (chat_exchange text e s) @
     (if find (is_current (currentSessionId s)) (sessions s) \<noteq> None \<and>
         isConnected (handleSend_chat text e s)
      then [Sent (SaveSessions (sessions (handleSend_chat text e s)))]
      else [])"
  by (simp add: handleSend_chat_def recordTurn_eq flags_chat_exchange registry_chat_exchange)

section \<open>The entry point\<close>

lemma entered_eq:
  "entered e s =
     s\<lparr>sessions := (if no_session s
          then \<lparr>sid = toString (now_session e), title = ''New Session'',
                 timestamp = iso_session e, smessages = []\<rparr> # sessions s
          else sessions s),
       currentSessionId := (if no_session s then Some (toString (now_session e)) else currentSessionId s),
       messages := (if no_session s then [] else messages s),
       isThinking := True, dom_input := [], dom_sendDisabled := True,
       shared := (if no_session s then 0 else shared s),
       trace := trace s @
         (if no_session s \<and> isConnected s
          then [Sent (SaveSessions (\<lparr>sid = toString (now_session e), title = ''New Session'',
                 timestamp = iso_session e, smessages = []\<rparr> # sessions s))]
          else [])\<rparr>"
  by (simp add: entered_def createNewSession_def saveSessionsToBackend_eq updateUIState_def Let_def)

lemma handleSend_accepted:
  "accepted s \<Longrightarrow>
   handleSend e s =
     (if dom_imageToggle s then handleSend_image (trim (dom_input s)) e (entered e s)
      else handleSend_chat (trim (dom_input s)) e (entered e s))"
  by (simp add: handleSend_def accepted_def entered_def updateUIState_def Let_def
      createNewSession_def saveSessionsToBackend_eq)

lemma handleSend_rejected:
  "\<not> accepted s \<Longrightarrow>
   handleSend e s =
     (if trim (dom_input s) = [] \<or> isThinking s then s else s\<lparr>dom_helpHidden := False\<rparr>)"
  by (auto simp add: handleSend_def accepted_def Let_def)


section \<open>Views of the trace\<close>

named_theorems views

lemma requests_simps [views]:
  "requests [] = []"
  "requests (Sent r # tr) = r # requests tr"
  "requests (Appended m # tr) = requests tr"
  "requests (Updated i c # tr) = requests tr"
  "requests (tr @ tr') = requests tr @ requests tr'"
  by (simp_all add: requests_def)

lemma transcript_calls_simps [views]:
  "transcript_calls [] = []"
  "transcript_calls (Sent r # tr) = transcript_calls tr"
  "transcript_calls (Appended m # tr) = Appended m # transcript_calls tr"
  "transcript_calls (Updated i c # tr) = Updated i c # transcript_calls tr"
  "transcript_calls (tr @ tr') = transcript_calls tr @ transcript_calls tr'"
  by (simp_all add: transcript_calls_def)

lemma sent_messages_simps [views]:
  "sent_messages [] = []"
  "sent_messages (Sent r # tr) = chat_messages r @ sent_messages tr"
  "sent_messages (Appended m # tr) = sent_messages tr"
  "sent_messages (Updated i c # tr) = sent_messages tr"
  "sent_messages (tr @ tr') = sent_messages tr @ sent_messages tr'"
  by (simp_all add: sent_messages_def requests_def)

lemma sent_models_simps [views]:
  "sent_models [] = []"
  "sent_models (Sent r # tr) = chat_model r @ sent_models tr"
  "sent_models (Appended m # tr) = sent_models tr"
  "sent_models (Updated i c # tr) = sent_models tr"
  "sent_models (tr @ tr') = sent_models tr @ sent_models tr'"
  by (simp_all add: sent_models_def requests_def)

lemma saved_files_simps [views]:
  "saved_files [] = []"
  "saved_files (Sent r # tr) = saved_file r @ saved_files tr"
  "saved_files (Appended m # tr) = saved_files tr"
  "saved_files (Updated i c # tr) = saved_files tr"
  "saved_files (tr @ tr') = saved_files tr @ saved_files tr'"
  by (simp_all add: saved_files_def requests_def)

lemma persists_simps [views]:
  "persists [] = []"
  "persists (Sent r # tr) = persisted r @ persists tr"
  "persists (Appended m # tr) = persists tr"
  "persists (Updated i c # tr) = persists tr"
  "persists (tr @ tr') = persists tr @ persists tr'"
  by (simp_all add: persists_def requests_def)

lemma image_calls_simps [views]:
  "image_calls [] = []"
  "image_calls (Sent r # tr) = (if image_call r then r # image_calls tr else image_calls tr)"
  "image_calls (Appended m # tr) = image_calls tr"
  "image_calls (Updated i c # tr) = image_calls tr"
  "image_calls (tr @ tr') = image_calls tr @ image_calls tr'"
  by (simp_all add: image_calls_def requests_def)

lemma generate_calls_simps [views]:
  "generate_calls [] = []"
  "generate_calls (Sent r # tr) =
     (if generate_call r then r # generate_calls tr else generate_calls tr)"
  "generate_calls (Appended m # tr) = generate_calls tr"
  "generate_calls (Updated i c # tr) = generate_calls tr"
  "generate_calls (tr @ tr') = generate_calls tr @ generate_calls tr'"
  by (simp_all add: generate_calls_def requests_def)

lemma scrapes_views:
  "transcript_calls (map (\<lambda>r. Sent (Scrape (h_href r))) rs) = []"
  "sent_messages (map (\<lambda>r. Sent (Scrape (h_href r))) rs) = []"
  "sent_models (map (\<lambda>r. Sent (Scrape (h_href r))) rs) = []"
  "saved_files (map (\<lambda>r. Sent (Scrape (h_href r))) rs) = []"
  "persists (map (\<lambda>r. Sent (Scrape (h_href r))) rs) = []"
  by (induction rs) (simp_all add: views)

lemma web_requests_views [views]:
  "transcript_calls (web_requests text e s) = []"
  "sent_messages (web_requests text e s) = []"
  "sent_models (web_requests text e s) = []"
  "saved_files (web_requests text e s) = []"
  "persists (web_requests text e s) = []"
  by (simp_all add: web_requests_def views scrapes_views)

section \<open>Rejected turns\<close>

text \<open>
  Claim C6. An input that is empty, a turn already in flight, or a lost connection makes
  the dispatcher reject the input before any mutation: no transcript entry, no request. The
  claim adds that in the disconnected case a help prompt is surfaced; the guards are tried
  in the order of the source, so that holds when the input is non-empty and no turn is in
  flight, and an empty input (or a turn in flight) returns silently even when the
  connection is down.
\<close>

theorem rejected_turn_changes_nothing:
  assumes "trim (dom_input s) = [] \<or> isThinking s \<or> \<not> isConnected s"
  shows "handleSend e s =
           (if trim (dom_input s) = [] \<or> isThinking s then s else s\<lparr>dom_helpHidden := False\<rparr>)
         \<and> messages (handleSend e s) = messages s
         \<and> trace (handleSend e s) = trace s"
proof -
  from assms have "\<not> accepted s"
    by (auto simp: accepted_def)
  then show ?thesis
    by (simp add: handleSend_rejected)
qed

theorem rejected_turn_witness:
  "dom_helpHidden (handleSend unanswered (initial\<lparr>dom_input := ''Hello''\<rparr>)) = False
   \<and> messages (handleSend unanswered (initial\<lparr>dom_input := ''Hello''\<rparr>)) = []
   \<and> trace (handleSend unanswered (initial\<lparr>dom_input := ''Hello''\<rparr>)) = []"
  using rejected_turn_changes_nothing [of "initial\<lparr>dom_input := ''Hello''\<rparr>" unanswered]
  by (simp add: initial_def trim_def is_space_def)

theorem empty_input_offline_is_silent:
  "\<not> isConnected initial \<and> dom_helpHidden (handleSend unanswered initial)"
  by (simp add: handleSend_def initial_def trim_def Let_def)

lemma entered_frame:
  "modelId (entered e s) = modelId s"
  "imageModelId (entered e s) = imageModelId s"
  "imageModelsPath (entered e s) = imageModelsPath s"
  "imageSubfolder (entered e s) = imageSubfolder s"
  "isConnected (entered e s) = isConnected s"
  "inferenceMode (entered e s) = inferenceMode s"
  "scriptMode (entered e s) = scriptMode s"
  "outputFilename (entered e s) = outputFilename s"
  "dom_webToggle (entered e s) = dom_webToggle s"
  "dom_chromeToggle (entered e s) = dom_chromeToggle s"
  "dom_contextHidden (entered e s) = dom_contextHidden s"
  by (simp_all add: entered_eq)

lemma entered_views:
  "transcript_calls (trace (entered e s)) = transcript_calls (trace s)"
  "sent_messages (trace (entered e s)) = sent_messages (trace s)"
  "sent_models (trace (entered e s)) = sent_models (trace s)"
  "saved_files (trace (entered e s)) = saved_files (trace s)"
  "image_calls (trace (entered e s)) = image_calls (trace s)"
  "generate_calls (trace (entered e s)) = generate_calls (trace s)"
  by (simp_all add: entered_eq views)

lemma chat_request_entered:
  "chat_request h ((entered e s)\<lparr>modelId := m\<rparr>) = chat_request h (s\<lparr>modelId := m\<rparr>)"
  by (simp add: chat_request_def system_prompt_def entered_eq)

lemma configured_entered: "configured e (entered e' s) = configured e s"
  by (simp add: configured_def entered_frame)

lemma web_requests_entered: "web_requests text e (entered e' s) = web_requests text e s"
  by (simp add: web_requests_def entered_frame)

lemma registry_entered:
  "\<not> no_session s \<Longrightarrow> currentSessionId (entered e s) = currentSessionId s"
  "\<not> no_session s \<Longrightarrow> sessions (entered e s) = sessions s"
  "\<not> no_session s \<Longrightarrow> messages (entered e s) = messages s"
  "\<not> no_session s \<Longrightarrow> shared (entered e s) = shared s"
  by (simp_all add: entered_eq)

lemma saving_entered: "saving e (entered e' s) = saving e s"
  by (simp add: saving_def entered_eq)

lemma prompt_sent_entered: "prompt_sent text e (entered e' s) = prompt_sent text e s"
  by (simp add: prompt_sent_eq entered_eq)

lemma trace_chat_turn:
  assumes "accepted s" and "\<not> dom_imageToggle s"
  shows "trace (handleSend e s) =
     trace (entered e s) @
     [Appended (asked e s)] @ web_requests (trim (dom_input s)) e s @
     [Appended (thinking e),
      Sent (chat_request
        (conversationHistory (now_user e) (prompt_sent (trim (dom_input s)) e s)
           (messages (entered e s) @ [asked e s]))
        (s\<lparr>modelId := configured e s\<rparr>)),
      Updated (now_thinking e) (chat_outcome (chat e))] @
     (if saving e s
      then Sent (SaveFile (outputFilename s) (extract_code (chat_outcome (chat e)))) #
           (if rejected (save e) then [Updated (now_thinking e) (save_error e)] else [])
      else []) @
     (if find (is_current (currentSessionId (entered e s))) (sessions (entered e s)) \<noteq> None \<and>
         isConnected (handleSend e s)
      then [Sent (SaveSessions (sessions (handleSend e s)))]
      else [])"
  using assms
  by (simp add: handleSend_accepted trace_handleSend_chat trace_chat_exchange
      web_requests_entered prompt_sent_entered configured_entered chat_request_entered
      saving_entered entered_frame asked_def)

section \<open>The model named in the chat request\<close>

lemma configured_unprobed:
  assumes "inferenceMode s \<noteq> ''local'' \<or> \<not> dom_webToggle s \<or>
           (probes e AwaitSearch = [] \<and> probes e AwaitScrape = [])"
  shows "configured e s = modelId s"
  using assms by (auto simp add: configured_def named_remote)

text \<open>
  Claim C10. Every accepted chat turn sends exactly one chat request; its \<open>model\<close> field
  is the literal \<open>llama3\<close> when the configured model id is the empty string, and the
  configured id otherwise. The configured id is \<open>state.modelId\<close> as the request reads it,
  \<open>configured e s\<close>: the id the turn was accepted with, unless the client is in local mode,
  web augmentation is on and a probe that completed during the search or the page
  retrievals has reported another model.
\<close>

theorem chat_model_defaults_to_llama3:
  assumes "accepted s" and "\<not> dom_imageToggle s"
  shows "sent_models (trace (handleSend e s)) =
           sent_models (trace s) @ [if configured e s = [] then ''llama3'' else configured e s]
       \<and> (inferenceMode s \<noteq> ''local'' \<or> \<not> dom_webToggle s \<or>
            (probes e AwaitSearch = [] \<and> probes e AwaitScrape = [])
          \<longrightarrow> sent_models (trace (handleSend e s)) =
                sent_models (trace s) @ [if modelId s = [] then ''llama3'' else modelId s])"
proof -
  have sent: "sent_models (trace (handleSend e s)) =
           sent_models (trace s) @ [if configured e s = [] then ''llama3'' else configured e s]"
    by (simp add: trace_chat_turn [OF assms] views entered_views chat_request_def or_else_def)
  then show ?thesis
    by (simp add: configured_unprobed)
qed

theorem chat_model_witness:
  "accepted ((ready ''Hello'')\<lparr>modelId := []\<rparr>)
   \<and> \<not> dom_imageToggle ((ready ''Hello'')\<lparr>modelId := []\<rparr>)
   \<and> sent_models (trace (handleSend unanswered ((ready ''Hello'')\<lparr>modelId := []\<rparr>))) = [''llama3'']"
  using chat_model_defaults_to_llama3 [of "(ready ''Hello'')\<lparr>modelId := []\<rparr>" unanswered]
  by (simp add: accepted_def ready_def initial_def trim_def is_space_def views configured_def)

section \<open>Lazy loading of the image model\<close>

lemma image_entered:
  "retried e (entered e' s) = retried e s"
  "deciding e (entered e' s) = deciding e s"
  "load_guard e (entered e' s) = load_guard e s"
  "refresh_guard e (entered e' s) = refresh_guard e s"
  by (simp_all add: retried_def deciding_def load_guard_def refresh_guard_def entered_frame)

lemma trace_image_turn:
  assumes "accepted s" and "dom_imageToggle s"
  shows "trace (handleSend e s) =
     trace (entered e s) @
     [Appended (painting e),
      Sent (GenerateImage (trim (dom_input s)) (imageSubfolder s) (imageModelsPath s))] @
     (if retried e s
      then (if load_guard e s
            then [Sent (LoadImageModel (imageModelId s) (imageModelsPath s))] else []) @
           [Sent (GenerateImage (trim (dom_input s)) (imageSubfolder s) (imageModelsPath s))]
      else []) @
     [Updated (now_thinking e) (image_outcome (trim (dom_input s)) (deciding e s))] @
     (if succeeded (deciding e s) \<and> refresh_guard e s
      then [Sent (ImageSubfolders
              (if imageModelsPath s = [] then None else Some (imageModelsPath s)))]
      else [])"
  using assms
  by (simp add: handleSend_accepted trace_handleSend_image image_entered entered_frame)

lemma replaced_fresh:
  assumes "i \<notin> mid ` set ms" and "mid m = i"
  shows "replaced i c (ms @ [m]) = ms @ [m\<lparr>content := c, isTransient := False\<rparr>]"
proof -
  have "\<forall>x\<in>set ms. \<not> mid x = i"
    using assms(1) by auto
  then show ?thesis
    using assms(2) by (simp add: replaced_def update_first_append_miss)
qed

lemma image_turn_messages:
  assumes "accepted s" and "dom_imageToggle s"
    and "now_thinking e \<notin> mid ` set (messages (entered e s))"
  shows "messages (handleSend e s) =
           messages (entered e s) @
           [\<lparr>mid = now_thinking e, role = Assistant,
             content = image_outcome (trim (dom_input s)) (deciding e s), isTransient = False\<rparr>]"
  using assms(1,2) replaced_fresh [OF assms(3), of "painting e"]
  by (simp add: handleSend_accepted messages_handleSend_image image_entered painting_def)

text \<open>
  Claim C5. In image mode, when the first generate call is answered with status 400 and an
  image model id is configured, the claim has the turn issue one load call for that model
  and then one more generate call, and holds the outcome of the second attempt, written
  into the placeholder, to be final. The turn does issue two generate calls and no third,
  and it calls \<open>updateMessage\<close> once, with the id of the placeholder and the block that the
  outcome of the second call selects (the image, the failure block, or the connection
  error). The load call lies between the two generate calls when \<open>state.isConnected\<close>
  still holds as the first reply arrives; \<open>loadImageModel\<close> returns at once otherwise, and
  the generate call is repeated all the same. The block replaces the placeholder when the
  clock reading taken for the placeholder is not the id of an older message.
\<close>

theorem lazy_load_retries_once:
  assumes "accepted s" and "dom_imageToggle s"
    and "is_status 400 (gen1 e)" and "imageModelId s \<noteq> []"
  shows "generate_calls (trace (handleSend e s)) =
           generate_calls (trace s) @
           [GenerateImage (trim (dom_input s)) (imageSubfolder s) (imageModelsPath s),
            GenerateImage (trim (dom_input s)) (imageSubfolder s) (imageModelsPath s)]
       \<and> image_calls (trace (handleSend e s)) =
           image_calls (trace s) @
           (if load_guard e s
            then [GenerateImage (trim (dom_input s)) (imageSubfolder s) (imageModelsPath s),
                  LoadImageModel (imageModelId s) (imageModelsPath s),
                  GenerateImage (trim (dom_input s)) (imageSubfolder s) (imageModelsPath s)]
            else [GenerateImage (trim (dom_input s)) (imageSubfolder s) (imageModelsPath s),
                  GenerateImage (trim (dom_input s)) (imageSubfolder s) (imageModelsPath s)])
       \<and> transcript_calls (trace (handleSend e s)) =
           transcript_calls (trace s) @
           [Appended (painting e),
            Updated (now_thinking e) (image_outcome (trim (dom_input s)) (gen2 e))]
       \<and> (now_thinking e \<notin> mid ` set (messages (entered e s)) \<longrightarrow>
            messages (handleSend e s) =
              messages (entered e s) @
              [\<lparr>mid = now_thinking e, role = Assistant,
                content = image_outcome (trim (dom_input s)) (gen2 e), isTransient = False\<rparr>])"
proof -
  from assms have again: "retried e s"
    by (simp add: retried_def)
  then have dec: "deciding e s = gen2 e"
    by (simp add: deciding_def)
  have "generate_calls (trace (handleSend e s)) =
           generate_calls (trace s) @
           [GenerateImage (trim (dom_input s)) (imageSubfolder s) (imageModelsPath s),
            GenerateImage (trim (dom_input s)) (imageSubfolder s) (imageModelsPath s)]"
    using again by (simp add: trace_image_turn [OF assms(1,2)] views entered_views)
  moreover have "image_calls (trace (handleSend e s)) =
           image_calls (trace s) @
           (if load_guard e s
            then [GenerateImage (trim (dom_input s)) (imageSubfolder s) (imageModelsPath s),
                  LoadImageModel (imageModelId s) (imageModelsPath s),
                  GenerateImage (trim (dom_input s)) (imageSubfolder s) (imageModelsPath s)]
            else [GenerateImage (trim (dom_input s)) (imageSubfolder s) (imageModelsPath s),
                  GenerateImage (trim (dom_input s)) (imageSubfolder s) (imageModelsPath s)])"
    using again by (simp add: trace_image_turn [OF assms(1,2)] views entered_views)
  moreover have "transcript_calls (trace (handleSend e s)) =
           transcript_calls (trace s) @
           [Appended (painting e),
            Updated (now_thinking e) (image_outcome (trim (dom_input s)) (gen2 e))]"
    using again dec by (simp add: trace_image_turn [OF assms(1,2)] views entered_views)
  moreover have "messages (handleSend e s) =
              messages (entered e s) @
              [\<lparr>mid = now_thinking e, role = Assistant,
                content = image_outcome (trim (dom_input s)) (gen2 e), isTransient = False\<rparr>]"
    if "now_thinking e \<notin> mid ` set (messages (entered e s))"
    using image_turn_messages [OF assms(1,2) that] dec by simp
  ultimately show ?thesis
    by blast
qed

theorem lazy_load_witness:
  "accepted painter \<and> dom_imageToggle painter \<and> is_status 400 (gen1 absent_model)
   \<and> imageModelId painter \<noteq> []
   \<and> image_calls (trace (handleSend absent_model painter)) =
        [GenerateImage ''a red fox'' [] ''D:/images'',
         LoadImageModel ''sd15.safetensors'' ''D:/images'',
         GenerateImage ''a red fox'' [] ''D:/images'']
   \<and> messages (handleSend absent_model painter) =
        [\<lparr>mid = 3000, role = Assistant,
          content = ''## Image Gen Failed\<newline>out of memory'', isTransient = False\<rparr>]"
  using lazy_load_retries_once [of painter absent_model]
  by (simp add: accepted_def painter_def absent_model_def unanswered_def ready_def initial_def
      trim_def is_space_def is_status_def views entered_eq no_session_def painting_def
      image_outcome_def ok_def image_failed_def or_else_def load_guard_def)

theorem dropped_link_skips_load:
  "accepted painter \<and> dom_imageToggle painter \<and> is_status 400 (gen1 dropped)
   \<and> imageModelId painter = ''sd15.safetensors''
   \<and> image_calls (trace (handleSend dropped painter)) =
        [GenerateImage ''a red fox'' [] ''D:/images'',
         GenerateImage ''a red fox'' [] ''D:/images'']
   \<and> accepted repainter \<and> dom_imageToggle repainter \<and> is_status 400 (gen1 absent_model)
   \<and> imageModelId repainter = ''sd15.safetensors''
   \<and> messages (handleSend absent_model repainter) =
        [\<lparr>mid = 3000, role = Assistant,
          content = ''## Image Gen Failed\<newline>out of memory'', isTransient = False\<rparr>,
         \<lparr>mid = 3000, role = Assistant, content = painting_html, isTransient = True\<rparr>]"
proof -
  have p: "accepted painter" "dom_imageToggle painter"
    by (simp_all add: accepted_def painter_def ready_def initial_def trim_def is_space_def)
  have q: "accepted repainter" "dom_imageToggle repainter"
    by (simp_all add: accepted_def repainter_def painter_def ready_def initial_def trim_def
        is_space_def)
  have run: "handleSend absent_model repainter =
      handleSend_image (trim (dom_input repainter)) absent_model (entered absent_model repainter)"
    using q by (simp add: handleSend_accepted)
  have "image_calls (trace (handleSend dropped painter)) =
        [GenerateImage ''a red fox'' [] ''D:/images'',
         GenerateImage ''a red fox'' [] ''D:/images'']"
    by (subst trace_image_turn [OF p])
      (simp add: painter_def dropped_def absent_model_def unanswered_def ready_def initial_def
        trim_def is_space_def retried_def is_status_def load_guard_def succeeded_def
        deciding_def ok_def views entered_eq no_session_def)
  moreover have "messages (handleSend absent_model repainter) =
        [\<lparr>mid = 3000, role = Assistant,
          content = ''## Image Gen Failed\<newline>out of memory'', isTransient = False\<rparr>,
         \<lparr>mid = 3000, role = Assistant, content = painting_html, isTransient = True\<rparr>]"
    by (subst run, subst messages_handleSend_image)
      (simp add: repainter_def painter_def absent_model_def unanswered_def ready_def
        initial_def trim_def is_space_def retried_def is_status_def deciding_def
        image_outcome_def ok_def image_failed_def or_else_def entered_eq no_session_def
        painting_def replaced_def)
  ultimately show ?thesis
    using p q
    by (simp add: painter_def repainter_def dropped_def absent_model_def is_status_def)
qed

section \<open>The outbound message list of a chat turn\<close>

lemma conversationHistory_snoc:
  "conversationHistory u p (ms @ [\<lparr>mid = u, role = r, content = c, isTransient = False\<rparr>]) =
     conversationHistory u p ms @ [\<lparr>w_role = r, w_content = p\<rparr>]"
  by (simp add: conversationHistory_def)

lemma conversationHistory_fresh:
  assumes "u \<notin> mid ` set ms"
  shows "conversationHistory u p ms =
           map (\<lambda>m. \<lparr>w_role = role m, w_content = content m\<rparr>)
             (filter (\<lambda>m. \<not> isTransient m) ms)"
  using assms by (induction ms) (simp_all add: conversationHistory_def)

lemma sent_messages_chat_turn:
  assumes "accepted s" and "\<not> dom_imageToggle s"
  shows "sent_messages (trace (handleSend e s)) =
           sent_messages (trace s) @
           [\<lparr>w_role = System, w_content = system_prompt s\<rparr> #
            conversationHistory (now_user e) (prompt_sent (trim (dom_input s)) e s)
              (messages (entered e s)) @
            [\<lparr>w_role = User, w_content = prompt_sent (trim (dom_input s)) e s\<rparr>]]"
  by (simp add: trace_chat_turn [OF assms] views entered_views chat_request_def
      system_prompt_def asked_def conversationHistory_snoc)

lemma shallow_prompt:
  assumes "dom_webToggle s" and "\<not> dom_chromeToggle s"
    and "search e = Replied st (Inr \<lparr>sr_results =
           Some [\<lparr>h_title = ''WX'', h_href = href, h_body = ''Sunny''\<rparr>]\<rparr>)"
  shows "prompt_sent ''weather today'' e s =
           ''Context:\<newline>Source: WX\<newline>Snippet: Sunny\<newline>\<newline>Task: weather today''"
  using assms
  by (simp add: prompt_sent_eq usable_results_def shallow_context_def with_context_def)

text \<open>
  With shallow augmentation and the one search hit \<open>WX\<close>, the chat request carries,
  after the system message, the non-transient messages of the transcript in their order,
  and the message \<open>U\<close> just appended last, with the context block and the task as its
  content. \<open>U\<close> is told apart by
  its id: a message with another id has its stored content.
\<close>

lemma shallow_context_by_id:
  assumes "accepted s" and "\<not> dom_imageToggle s"
    and "dom_webToggle s" and "\<not> dom_chromeToggle s"
    and "trim (dom_input s) = ''weather today''"
    and "search e = Replied st (Inr \<lparr>sr_results =
           Some [\<lparr>h_title = ''WX'', h_href = href, h_body = ''Sunny''\<rparr>]\<rparr>)"
  shows "sent_messages (trace (handleSend e s)) =
           sent_messages (trace s) @
           [\<lparr>w_role = System, w_content = system_prompt s\<rparr> #
            map (\<lambda>m. \<lparr>w_role = role m,
                       w_content =
                         (if mid m = now_user e
                          then ''Context:\<newline>Source: WX\<newline>Snippet: Sunny\<newline>\<newline>Task: weather today''
                          else content m)\<rparr>)
                (filter (\<lambda>m. \<not> isTransient m) (messages (entered e s))) @
            [\<lparr>w_role = User,
              w_content = ''Context:\<newline>Source: WX\<newline>Snippet: Sunny\<newline>\<newline>Task: weather today''\<rparr>]]"
  using sent_messages_chat_turn [OF assms(1,2), of e] shallow_prompt [OF assms(3,4,6)] assms(5)
  by (simp add: conversationHistory_def)

text \<open>
  When the clock reading taken for \<open>U\<close> is not the id of an older message, every other
  message is sent with its stored content, as the claim has it.
\<close>

lemma shallow_context_fresh_id:
  assumes "accepted s" and "\<not> dom_imageToggle s"
    and "dom_webToggle s" and "\<not> dom_chromeToggle s"
    and "trim (dom_input s) = ''weather today''"
    and "search e = Replied st (Inr \<lparr>sr_results =
           Some [\<lparr>h_title = ''WX'', h_href = href, h_body = ''Sunny''\<rparr>]\<rparr>)"
    and "now_user e \<notin> mid ` set (messages (entered e s))"
  shows "sent_messages (trace (handleSend e s)) =
           sent_messages (trace s) @
           [\<lparr>w_role = System, w_content = system_prompt s\<rparr> #
            map (\<lambda>m. \<lparr>w_role = role m, w_content = content m\<rparr>)
                (filter (\<lambda>m. \<not> isTransient m) (messages (entered e s))) @
            [\<lparr>w_role = User,
              w_content = ''Context:\<newline>Source: WX\<newline>Snippet: Sunny\<newline>\<newline>Task: weather today''\<rparr>]]"
  using sent_messages_chat_turn [OF assms(1,2), of e] shallow_prompt [OF assms(3,4,6)] assms(5)
    conversationHistory_fresh [OF assms(7)]
  by simp

lemma shallow_context_example:
  "sent_messages (trace (handleSend one_hit forecaster)) =
     [[\<lparr>w_role = System, w_content = ''You are Nexus.''\<rparr>,
       \<lparr>w_role = User, w_content = ''hi''\<rparr>,
       \<lparr>w_role = Assistant, w_content = ''hello''\<rparr>,
       \<lparr>w_role = User,
         w_content = ''Context:\<newline>Source: WX\<newline>Snippet: Sunny\<newline>\<newline>Task: weather today''\<rparr>]]"
proof -
  have a: "accepted forecaster" "\<not> dom_imageToggle forecaster"
    by (simp_all add: accepted_def forecaster_def ready_def initial_def trim_def is_space_def)
  show ?thesis
    by (subst sent_messages_chat_turn [OF a])
      (simp add: prompt_sent_eq usable_results_def shallow_context_def with_context_def
        forecaster_def one_hit_def unanswered_def ready_def initial_def earlier_def trim_def
        is_space_def views entered_eq no_session_def system_prompt_def or_else_def
        conversationHistory_def)
qed

text \<open>
  Claim C7. In shallow augmentation mode, when the user submits \<open>weather today\<close> and the
  search returns the single result with title \<open>WX\<close> and body \<open>Sunny\<close>, the content of the
  outbound message \<open>U\<close> is the context block followed by the task, every other message of
  the outbound list keeps its stored content, and transient entries are left out. The
  source tells \<open>U\<close> apart by \<open>m.id === userMsgId\<close>, and the id is the reading of the
  millisecond clock. In the session below the first message, \<open>old question\<close>, carries the
  id 2000, and the clock reads 2000 when \<open>U\<close> is appended: the request then carries the
  context block and the task twice, in the place of \<open>old question\<close> and as the content of
  \<open>U\<close>.
\<close>

theorem shallow_context_overwrites_older_message:
  "accepted collider \<and> \<not> dom_imageToggle collider \<and> dom_webToggle collider
   \<and> \<not> dom_chromeToggle collider \<and> trim (dom_input collider) = ''weather today''
   \<and> messages collider =
        [\<lparr>mid = 2000, role = User, content = ''old question'', isTransient = False\<rparr>,
         \<lparr>mid = 2100, role = Assistant, content = ''old answer'', isTransient = False\<rparr>]
   \<and> now_user one_hit = 2000
   \<and> sent_messages (trace (handleSend one_hit collider)) =
        [[\<lparr>w_role = System, w_content = ''You are Nexus.''\<rparr>,
          \<lparr>w_role = User,
            w_content = ''Context:\<newline>Source: WX\<newline>Snippet: Sunny\<newline>\<newline>Task: weather today''\<rparr>,
          \<lparr>w_role = Assistant, w_content = ''old answer''\<rparr>,
          \<lparr>w_role = User,
            w_content = ''Context:\<newline>Source: WX\<newline>Snippet: Sunny\<newline>\<newline>Task: weather today''\<rparr>]]"
proof -
  have a: "accepted collider" "\<not> dom_imageToggle collider"
    by (simp_all add: accepted_def collider_def ready_def initial_def trim_def is_space_def)
  have "sent_messages (trace (handleSend one_hit collider)) =
        [[\<lparr>w_role = System, w_content = ''You are Nexus.''\<rparr>,
          \<lparr>w_role = User,
            w_content = ''Context:\<newline>Source: WX\<newline>Snippet: Sunny\<newline>\<newline>Task: weather today''\<rparr>,
          \<lparr>w_role = Assistant, w_content = ''old answer''\<rparr>,
          \<lparr>w_role = User,
            w_content = ''Context:\<newline>Source: WX\<newline>Snippet: Sunny\<newline>\<newline>Task: weather today''\<rparr>]]"
    by (subst sent_messages_chat_turn [OF a])
      (simp add: prompt_sent_eq usable_results_def shallow_context_def with_context_def
        collider_def collided_def one_hit_def unanswered_def ready_def initial_def trim_def
        is_space_def views entered_eq no_session_def system_prompt_def or_else_def
        conversationHistory_def)
  then show ?thesis
    using a
    by (simp add: collider_def collided_def one_hit_def unanswered_def ready_def initial_def
        trim_def is_space_def)
qed

section \<open>Saving the script\<close>

subsection \<open>The pattern and the first fenced block\<close>

lemma extract_code_cases:
  "extract_code c =
     (case fence_match c of None \<Rightarrow> c | Some b \<Rightarrow> if b = [] then c else b)"
  by (simp add: extract_code_def or_else_def)

lemma extract_code_example:
  "extract_code ''Sure:\<newline>```lua\<newline>print(1)\<newline>```'' = ''print(1)\<newline>''"
  by (simp add: extract_code_def or_else_def match_here_def is_word_char_def)

lemma spec_body_until_fence: "spec_body xs = until_fence xs"
  by (induction xs) simp_all

lemma until_fence_Some:
  "until_fence xs = Some b \<Longrightarrow> \<exists>q. xs = b @ ''```'' @ q"
proof (induction xs arbitrary: b)
  case Nil
  then show ?case by simp
next
  case (Cons c cs)
  show ?case
  proof (cases "take 3 (c # cs) = ''```''")
    case True
    with Cons.prems have "b = []"
      by simp
    moreover have "c # cs = take 3 (c # cs) @ drop 3 (c # cs)"
      by (simp only: append_take_drop_id)
    ultimately show ?thesis
      using True by (metis append_Nil)
  next
    case False
    with Cons.prems obtain b' where b: "b = c # b'" and "until_fence cs = Some b'"
      by auto
    with Cons.IH obtain q where "cs = b' @ ''```'' @ q"
      by blast
    with b show ?thesis
      by simp
  qed
qed

lemma until_fence_has: "until_fence (u @ ''```'' @ q) \<noteq> None"
  by (induction u) simp_all

lemma spec_after_fence_here:
  "take 3 c = ''```'' \<Longrightarrow> spec_after_fence c = Some (drop 3 c)"
  by (cases c) simp_all

lemma spec_first_fenced_block_skip:
  "take 3 (x # xs) \<noteq> ''```'' \<Longrightarrow>
   spec_first_fenced_block (x # xs) = spec_first_fenced_block xs"
  by (auto simp add: spec_first_fenced_block_def)

lemma match_here_skip: "take 3 t \<noteq> ''```'' \<Longrightarrow> match_here t = None"
  by (simp add: match_here_def)

lemma not_word_newline: "\<not> is_word_char (CHR 0x0A)"
  by (simp add: is_word_char_def)

text \<open>A match of the pattern lies wholly inside the text, a line feed before its body.\<close>

lemma match_here_Some:
  assumes "match_here t = Some b"
  shows "take 3 t = ''```''" and "\<exists>w q. drop 3 t = w @ CHR 0x0A # b @ ''```'' @ q"
proof -
  show fence: "take 3 t = ''```''"
    using assms by (auto simp add: match_here_def split: if_splits)
  from assms fence obtain body where
    rest: "dropWhile is_word_char (drop 3 t) = CHR 0x0A # body" and "until_fence body = Some b"
    by (auto simp add: match_here_def split: list.splits if_splits)
  then obtain q where "body = b @ ''```'' @ q"
    using until_fence_Some by blast
  with rest have "drop 3 t = takeWhile is_word_char (drop 3 t) @ CHR 0x0A # b @ ''```'' @ q"
    by (metis takeWhile_dropWhile_id)
  then show "\<exists>w q. drop 3 t = w @ CHR 0x0A # b @ ''```'' @ q"
    by blast
qed

lemma fence_match_Some:
  "fence_match c = Some b \<Longrightarrow> \<exists>p t. c = p @ t \<and> match_here t = Some b"
proof (induction c)
  case Nil
  then show ?case by simp
next
  case (Cons x xs)
  show ?case
  proof (cases "match_here (x # xs)")
    case None
    with Cons.prems have "fence_match xs = Some b"
      by simp
    with Cons.IH obtain p t where "xs = p @ t" and "match_here t = Some b"
      by blast
    then have "x # xs = (x # p) @ t \<and> match_here t = Some b"
      by simp
    then show ?thesis
      by blast
  next
    case (Some b')
    with Cons.prems have "x # xs = [] @ (x # xs) \<and> match_here (x # xs) = Some b"
      by simp
    then show ?thesis
      by blast
  qed
qed

lemma first_newline:
  "\<exists>u. dropWhile (\<lambda>x. x \<noteq> CHR 0x0A) (m @ CHR 0x0A # b @ ''```'' @ q) =
         CHR 0x0A # u @ ''```'' @ q"
proof (induction m)
  case Nil
  show ?case by simp
next
  case (Cons x m)
  show ?case
  proof (cases "x = CHR 0x0A")
    case True
    have "dropWhile (\<lambda>x. x \<noteq> CHR 0x0A) ((x # m) @ CHR 0x0A # b @ ''```'' @ q) =
            CHR 0x0A # (m @ CHR 0x0A # b) @ ''```'' @ q"
      using True by simp
    then show ?thesis
      by blast
  next
    case False
    with Cons.IH show ?thesis
      by simp
  qed
qed

lemma block_opened_here:
  assumes "take 3 c = ''```''" and "c = h @ CHR 0x0A # b @ ''```'' @ q" and "3 \<le> length h"
  shows "spec_first_fenced_block c \<noteq> None"
proof -
  have "drop 3 c = drop 3 h @ CHR 0x0A # b @ ''```'' @ q"
    using assms(2,3) by simp
  with first_newline [of "drop 3 h" b q] obtain u where
    "dropWhile (\<lambda>x. x \<noteq> CHR 0x0A) (drop 3 c) = CHR 0x0A # u @ ''```'' @ q"
    by auto
  then show ?thesis
    using until_fence_has [of u q]
    by (simp add: spec_first_fenced_block_def spec_after_fence_here [OF assms(1)]
        spec_body_until_fence)
qed

lemma block_opened_before:
  assumes "take 3 t = ''```''" and "t = h @ CHR 0x0A # b @ ''```'' @ q" and "3 \<le> length h"
  shows "spec_first_fenced_block (p @ t) \<noteq> None"
proof (induction p)
  case Nil
  show ?case
    using block_opened_here [OF assms] by simp
next
  case (Cons x p)
  show ?case
  proof (cases "take 3 (x # p @ t) = ''```''")
    case True
    have "x # p @ t = (x # p @ h) @ CHR 0x0A # b @ ''```'' @ q"
      using assms(2) by simp
    moreover have "3 \<le> length (x # p @ h)"
      using assms(3) by simp
    ultimately have "spec_first_fenced_block (x # p @ t) \<noteq> None"
      using True by (rule block_opened_here [rotated])
    then show ?thesis
      by simp
  next
    case False
    then show ?thesis
      using Cons.IH by (simp add: spec_first_fenced_block_skip)
  qed
qed

text \<open>Where the text has no fenced block, the pattern has no match.\<close>

lemma no_block_no_match:
  assumes "spec_first_fenced_block c = None"
  shows "fence_match c = None"
proof (rule ccontr)
  assume "fence_match c \<noteq> None"
  then obtain b where "fence_match c = Some b"
    by blast
  then obtain p t where c: "c = p @ t" and m: "match_here t = Some b"
    using fence_match_Some by blast
  from match_here_Some [OF m] obtain w q where
    fence: "take 3 t = ''```''" and rest: "drop 3 t = w @ CHR 0x0A # b @ ''```'' @ q"
    by blast
  have "t = take 3 t @ drop 3 t"
    by (simp only: append_take_drop_id)
  with fence rest have "t = (''```'' @ w) @ CHR 0x0A # b @ ''```'' @ q"
    by simp
  moreover have "3 \<le> length (''```'' @ w)"
    by simp
  ultimately have "spec_first_fenced_block (p @ t) \<noteq> None"
    using fence by (rule block_opened_before [rotated])
  with assms c show False
    by simp
qed

text \<open>
  Where the first fenced block has a label of word characters, the first match of the
  pattern is that block, and group 1 is its body.
\<close>

lemma first_block_matched:
  assumes "spec_first_fenced_block c = Some (label, body)" and "list_all is_word_char label"
  shows "fence_match c = Some body"
  using assms(1)
proof (induction c)
  case Nil
  then show ?case
    by (simp add: spec_first_fenced_block_def)
next
  case (Cons x xs)
  show ?case
  proof (cases "take 3 (x # xs) = ''```''")
    case False
    with Cons show ?thesis
      by (simp add: spec_first_fenced_block_skip match_here_skip)
  next
    case True
    let ?r = "drop 3 (x # xs)"
    from Cons.prems obtain y rest where
      parts: "dropWhile (\<lambda>x. x \<noteq> CHR 0x0A) ?r = y # rest"
        "label = takeWhile (\<lambda>x. x \<noteq> CHR 0x0A) ?r" "spec_body rest = Some body"
      by (auto simp add: spec_first_fenced_block_def spec_after_fence_here [OF True]
          simp del: spec_after_fence.simps split: list.splits)
    have "y = CHR 0x0A"
      using parts(1) hd_dropWhile [of "\<lambda>x. x \<noteq> CHR 0x0A" ?r] by auto
    with parts(1,2) have r: "?r = label @ CHR 0x0A # rest"
      by (metis takeWhile_dropWhile_id)
    have "dropWhile is_word_char (label @ CHR 0x0A # rest) = CHR 0x0A # rest"
      using assms(2) not_word_newline by (simp add: dropWhile_append2 list_all_iff)
    with r parts(3) True have "match_here (x # xs) = Some body"
      by (simp add: match_here_def spec_body_until_fence)
    then show ?thesis
      by simp
  qed
qed

lemma extract_code_refines:
  assumes "word_label c"
  shows "extract_code c =
           (if spec_saved_content c = [] then c else spec_saved_content c)"
proof (cases "spec_first_fenced_block c")
  case None
  then show ?thesis
    by (simp add: extract_code_cases no_block_no_match spec_saved_content_def)
next
  case (Some block)
  obtain label body where block: "block = (label, body)"
    by (cases block)
  with Some assms have "fence_match c = Some body"
    by (auto simp add: word_label_def intro: first_block_matched)
  with Some block show ?thesis
    by (simp add: extract_code_cases spec_saved_content_def)
qed

text \<open>
  A label with another character is not matched: the fence that opens the block is passed
  over, and with no later match the whole reply is what \<open>extract_code\<close> returns.
\<close>

lemma other_label_is_passed_over:
  "spec_first_fenced_block ''```c++\<newline>int x;\<newline>```'' = Some (''c++'', ''int x;\<newline>'')
   \<and> extract_code ''```c++\<newline>int x;\<newline>```'' = ''```c++\<newline>int x;\<newline>```''"
  by (simp add: spec_first_fenced_block_def extract_code_def or_else_def match_here_def
      is_word_char_def)

subsection \<open>The save request\<close>

lemma saved_files_chat_turn:
  assumes "accepted s" and "\<not> dom_imageToggle s"
  shows "saved_files (trace (handleSend e s)) =
           saved_files (trace s) @
           (if saving e s
            then [(outputFilename s, extract_code (chat_outcome (chat e)))] else [])"
  by (simp add: trace_chat_turn [OF assms] views entered_views chat_request_def)

text \<open>
  Claim C8. With script-generation mode active and an output file name configured, a chat
  reply that is not an error is followed by one save request. The claim says its content is
  the body of the first fenced code block of the reply, or the whole reply when there is no
  fenced block. For a first block whose opening line carries only word characters after the
  backticks, or nothing, what is sent is the body of that block when the body is not
  empty, and the whole reply otherwise: when there is no fenced block, and also when the
  body of the first block is empty. For the reply of the claim, \<open>Sure:\<close> followed by a
  \<open>lua\<close> block holding the line \<open>print(1)\<close>, the saved content is that line with its
  line feed. Here \<open>spec_saved_content\<close> is the content the claim names.
\<close>

theorem script_saved_from_first_fence:
  assumes "accepted s" and "\<not> dom_imageToggle s"
    and "scriptMode s" and "outputFilename s \<noteq> []"
    and "chat e = Replied st (Inr d)" and "st \<noteq> 400"
  shows "saved_files (trace (handleSend e s)) =
           saved_files (trace s) @ [(outputFilename s, extract_code (reply_content d))]
       \<and> (word_label (reply_content d) \<longrightarrow>
            extract_code (reply_content d) =
              (if spec_saved_content (reply_content d) = [] then reply_content d
               else spec_saved_content (reply_content d)))
       \<and> extract_code ''Sure:\<newline>```lua\<newline>print(1)\<newline>```'' = ''print(1)\<newline>''
       \<and> spec_saved_content ''Sure:\<newline>```lua\<newline>print(1)\<newline>```'' = ''print(1)\<newline>''"
proof -
  from assms(3-6) have "saving e s" and "chat_outcome (chat e) = reply_content d"
    by (simp_all add: saving_def answered_def chat_outcome_def)
  then have files: "saved_files (trace (handleSend e s)) =
           saved_files (trace s) @ [(outputFilename s, extract_code (reply_content d))]"
    by (simp add: saved_files_chat_turn [OF assms(1,2)])
  have spec: "spec_saved_content ''Sure:\<newline>```lua\<newline>print(1)\<newline>```'' = ''print(1)\<newline>''"
    by (simp add: spec_saved_content_def spec_first_fenced_block_def)
  from files extract_code_refines [of "reply_content d"] extract_code_example spec
  show ?thesis
    by blast
qed

theorem script_saved_witness:
  "accepted scripter \<and> \<not> dom_imageToggle scripter \<and> scriptMode scripter
   \<and> outputFilename scripter \<noteq> []
   \<and> word_label ''Sure:\<newline>```lua\<newline>print(1)\<newline>```''
   \<and> saved_files (trace (handleSend
         (replying ''Sure:\<newline>```lua\<newline>print(1)\<newline>```'') scripter)) =
        [(''script.lua'', ''print(1)\<newline>'')]"
proof -
  have label: "word_label ''Sure:\<newline>```lua\<newline>print(1)\<newline>```''"
    by (simp add: word_label_def spec_first_fenced_block_def is_word_char_def)
  have reply: "reply_content \<lparr>c_message_content = Some ''Sure:\<newline>```lua\<newline>print(1)\<newline>```'',
        c_response = None, c_detail = None, c_message = None\<rparr> =
      ''Sure:\<newline>```lua\<newline>print(1)\<newline>```''"
    by (simp add: reply_content_def or_else_def)
  have a: "accepted scripter" "\<not> dom_imageToggle scripter" "scriptMode scripter"
    "outputFilename scripter \<noteq> []"
    by (simp_all add: accepted_def scripter_def ready_def initial_def trim_def is_space_def)
  have c: "chat (replying ''Sure:\<newline>```lua\<newline>print(1)\<newline>```'') =
      Replied 200 (Inr \<lparr>c_message_content = Some ''Sure:\<newline>```lua\<newline>print(1)\<newline>```'',
        c_response = None, c_detail = None, c_message = None\<rparr>)"
    by (simp add: replying_def)
  from script_saved_from_first_fence [OF a c] label
  have "saved_files (trace (handleSend
         (replying ''Sure:\<newline>```lua\<newline>print(1)\<newline>```'') scripter)) =
        saved_files (trace scripter) @
        [(outputFilename scripter, spec_saved_content ''Sure:\<newline>```lua\<newline>print(1)\<newline>```'')]"
    and "spec_saved_content ''Sure:\<newline>```lua\<newline>print(1)\<newline>```'' = ''print(1)\<newline>''"
    by (simp_all add: reply)
  then show ?thesis
    using a label by (simp add: scripter_def ready_def initial_def views)
qed

theorem empty_fence_saves_whole_reply:
  "spec_first_fenced_block ''```\<newline>```'' = Some ([], [])
   \<and> spec_saved_content ''```\<newline>```'' = []
   \<and> saved_files (trace (handleSend (replying ''```\<newline>```'') scripter)) =
        [(''script.lua'', ''```\<newline>```'')]"
proof -
  have a: "accepted scripter" "\<not> dom_imageToggle scripter"
    by (simp_all add: accepted_def scripter_def ready_def initial_def trim_def is_space_def)
  have "saved_files (trace (handleSend (replying ''```\<newline>```'') scripter)) =
        [(''script.lua'', ''```\<newline>```'')]"
    by (subst saved_files_chat_turn [OF a])
      (simp add: scripter_def replying_def unanswered_def ready_def initial_def views
        saving_def answered_def chat_outcome_def reply_content_def or_else_def
        extract_code_def match_here_def is_word_char_def)
  then show ?thesis
    by (simp add: spec_saved_content_def spec_first_fenced_block_def)
qed

section \<open>Failures of the augmentation\<close>

lemma all_settled_None: "all_settled rs = None \<longleftrightarrow> list_ex failed rs"
  by (induction rs rule: all_settled.induct) (simp_all add: failed_def)

lemma failed_search_unusable: "failed (search e) \<Longrightarrow> usable_results (search e) = []"
  by (simp add: failed_def usable_results_def split: fetched.splits sum.splits)

lemma raw_prompt_kept:
  assumes "failed (search e) \<or> usable_results (search e) = [] \<or>
           (dom_chromeToggle s \<and>
            list_ex failed (map (scrape e) [0..<length (take 2 (usable_results (search e)))]))"
  shows "prompt_sent text e s = text"
  using assms failed_search_unusable [of e]
  by (auto simp add: prompt_sent_eq all_settled_None [symmetric] simp del: length_take)

text \<open>
  Claim C9. In a chat turn with web augmentation enabled the progress indicator is hidden
  again whatever happens, and the turn goes on to its chat request and ends. When the
  search call fails (the fetch rejects or the reply does not parse), when it yields no
  results, or, in deep mode, when one of the page retrievals fails in that sense, the
  prompt sent to the model is the raw input. The claim says so for any failure of the
  calls; a page retrieval answered with an error status and a body that parses is not
  treated as a failure by the code: its missing content becomes an empty \<open>Content\<close>
  entry of an augmented prompt.
\<close>

theorem failed_augmentation_sends_raw_prompt:
  assumes "accepted s" and "\<not> dom_imageToggle s" and "dom_webToggle s"
  shows "dom_contextHidden (handleSend e s)
       \<and> \<not> isThinking (handleSend e s)
       \<and> length (sent_messages (trace (handleSend e s))) =
           Suc (length (sent_messages (trace s)))
       \<and> (failed (search e) \<or> usable_results (search e) = [] \<or>
            (dom_chromeToggle s \<and>
             list_ex failed (map (scrape e) [0..<length (take 2 (usable_results (search e)))]))
          \<longrightarrow> sent_messages (trace (handleSend e s)) =
                sent_messages (trace s) @
                [\<lparr>w_role = System, w_content = system_prompt s\<rparr> #
                 conversationHistory (now_user e) (trim (dom_input s)) (messages (entered e s)) @
                 [\<lparr>w_role = User, w_content = trim (dom_input s)\<rparr>]])"
proof -
  have run: "handleSend e s = handleSend_chat (trim (dom_input s)) e (entered e s)"
    using assms by (simp add: handleSend_accepted)
  have hidden: "dom_contextHidden (handleSend e s)"
    using assms(3) by (simp add: run flags_handleSend_chat entered_frame)
  have idle: "\<not> isThinking (handleSend e s)"
    by (simp add: run flags_handleSend_chat)
  have one: "length (sent_messages (trace (handleSend e s))) =
           Suc (length (sent_messages (trace s)))"
    by (simp add: sent_messages_chat_turn [OF assms(1,2)])
  have raw: "sent_messages (trace (handleSend e s)) =
                sent_messages (trace s) @
                [\<lparr>w_role = System, w_content = system_prompt s\<rparr> #
                 conversationHistory (now_user e) (trim (dom_input s)) (messages (entered e s)) @
                 [\<lparr>w_role = User, w_content = trim (dom_input s)\<rparr>]]"
    if "failed (search e) \<or> usable_results (search e) = [] \<or>
            (dom_chromeToggle s \<and>
             list_ex failed (map (scrape e) [0..<length (take 2 (usable_results (search e)))]))"
    using sent_messages_chat_turn [OF assms(1,2), of e] raw_prompt_kept [OF that]
    by simp
  from hidden idle one raw show ?thesis
    by blast
qed

theorem failed_augmentation_witness:
  "accepted forecaster \<and> \<not> dom_imageToggle forecaster \<and> dom_webToggle forecaster
   \<and> failed (search unanswered)
   \<and> dom_contextHidden (handleSend unanswered forecaster)
   \<and> sent_messages (trace (handleSend unanswered forecaster)) =
        [[\<lparr>w_role = System, w_content = ''You are Nexus.''\<rparr>,
          \<lparr>w_role = User, w_content = ''hi''\<rparr>,
          \<lparr>w_role = Assistant, w_content = ''hello''\<rparr>,
          \<lparr>w_role = User, w_content = ''weather today''\<rparr>]]"
  using failed_augmentation_sends_raw_prompt [of forecaster unanswered]
  by (simp add: accepted_def forecaster_def unanswered_def ready_def initial_def
      earlier_def trim_def is_space_def views entered_eq no_session_def system_prompt_def
      or_else_def failed_def conversationHistory_def)

theorem page_error_still_augments:
  "is_status 500 (scrape broken_page 0)
   \<and> sent_messages (trace (handleSend broken_page (forecaster\<lparr>dom_chromeToggle := True\<rparr>))) =
        [[\<lparr>w_role = System, w_content = ''You are Nexus.''\<rparr>,
          \<lparr>w_role = User, w_content = ''hi''\<rparr>,
          \<lparr>w_role = Assistant, w_content = ''hello''\<rparr>,
          \<lparr>w_role = User,
            w_content = ''Context:\<newline>Source: WX\<newline>Content: \<newline>\<newline>Task: weather today''\<rparr>]]"
proof -
  have ok: "accepted (forecaster\<lparr>dom_chromeToggle := True\<rparr>)"
    "\<not> dom_imageToggle (forecaster\<lparr>dom_chromeToggle := True\<rparr>)"
    by (simp_all add: accepted_def forecaster_def ready_def initial_def trim_def is_space_def)
  show ?thesis
    by (subst sent_messages_chat_turn [OF ok])
      (simp add: prompt_sent_eq usable_results_def views
        broken_page_def one_hit_def unanswered_def forecaster_def ready_def initial_def
        earlier_def trim_def is_space_def is_status_def entered_eq no_session_def
        system_prompt_def or_else_def conversationHistory_def deep_context_def
        with_context_def upt_rec)
qed

section \<open>The order of a turn on the transcript\<close>

lemma toString_1000: "toString 1000 = ''1000''"
  by code_simp

lemma replaced_fresh_pair:
  assumes "i \<notin> mid ` set ms" and "mid u \<noteq> i" and "mid m = i"
  shows "replaced i c (ms @ [u, m]) = ms @ [u, m\<lparr>content := c, isTransient := False\<rparr>]"
proof -
  have "\<forall>x\<in>set (ms @ [u]). \<not> mid x = i"
    using assms(1,2) by auto
  then have "replaced i c ((ms @ [u]) @ [m]) = (ms @ [u]) @ [m\<lparr>content := c, isTransient := False\<rparr>]"
    using assms(3) unfolding replaced_def by (subst update_first_append_miss) simp_all
  then show ?thesis
    by simp
qed

lemma image_turn_calls:
  assumes "accepted s" and "dom_imageToggle s"
  shows "transcript_calls (trace (handleSend e s)) =
           transcript_calls (trace s) @
           [Appended (painting e),
            Updated (now_thinking e) (image_outcome (trim (dom_input s)) (deciding e s))]"
  by (simp add: trace_image_turn [OF assms] views entered_views)

lemma chat_turn_calls:
  assumes "accepted s" and "\<not> dom_imageToggle s"
  shows "transcript_calls (trace (handleSend e s)) =
           transcript_calls (trace s) @
           [Appended (asked e s), Appended (thinking e),
            Updated (now_thinking e) (chat_outcome (chat e))] @
           (if saving e s \<and> rejected (save e)
            then [Updated (now_thinking e) (save_error e)] else [])"
  by (simp add: trace_chat_turn [OF assms] views entered_views)

lemma chat_turn_messages:
  assumes "accepted s" and "\<not> dom_imageToggle s"
    and "\<not> (saving e s \<and> rejected (save e))"
    and "now_thinking e \<notin> mid ` set (messages (entered e s))"
    and "now_thinking e \<noteq> now_user e"
  shows "messages (handleSend e s) =
           messages (entered e s) @
           [asked e s,
            \<lparr>mid = now_thinking e, role = Assistant,
             content = chat_outcome (chat e), isTransient = False\<rparr>]"
proof -
  from assms(3) have once: "(saving e s \<and> rejected (save e)) = False"
    by simp
  show ?thesis
    using assms(1,2,5) replaced_fresh_pair [OF assms(4), of "asked e s" "thinking e"]
    by (simp add: handleSend_accepted messages_handleSend_chat messages_chat_exchange
        saving_entered asked_def thinking_def once)
qed

text \<open>
  When both appends of a chat turn read the same millisecond, the reply lands on the user's
  message and the placeholder is left as it was.
\<close>

lemma same_millisecond_turn:
  "messages (handleSend ((replying ''Hi there'')\<lparr>now_thinking := 2000\<rparr>) (ready ''Hello'')) =
     [\<lparr>mid = 2000, role = User, content = ''Hi there'', isTransient = False\<rparr>,
      \<lparr>mid = 2000, role = Assistant, content = thinking_html, isTransient = True\<rparr>]"
proof -
  have a: "accepted (ready ''Hello'')" "\<not> dom_imageToggle (ready ''Hello'')"
    by (simp_all add: accepted_def ready_def initial_def trim_def is_space_def)
  have run: "handleSend e (ready ''Hello'') =
      handleSend_chat (trim (dom_input (ready ''Hello''))) e (entered e (ready ''Hello''))" for e
    using a by (simp add: handleSend_accepted)
  show ?thesis
    by (subst run, subst messages_handleSend_chat, subst messages_chat_exchange)
      (simp add: ready_def initial_def replying_def unanswered_def trim_def is_space_def
        saving_def chat_outcome_def reply_content_def or_else_def entered_eq no_session_def
        thinking_def replaced_def)
qed

text \<open>
  Claim C2. Within every accepted turn the user's message is said to be appended before
  the assistant placeholder, and the placeholder to be replaced exactly once, in image and
  in chat mode alike. In chat mode the user's message is appended first and the
  placeholder second. An image turn appends the placeholder only: the prompt is never put
  on the transcript as a message of the user. \<open>updateMessage\<close> is called with the id of the
  placeholder once in an image turn, and once in a chat turn unless the script-saving
  request is rejected; and when the clock reading taken for the placeholder is not the id
  of another message, the message rewritten is the placeholder.
\<close>

theorem turn_order_on_transcript:
  assumes "accepted s"
  shows "(dom_imageToggle s \<longrightarrow>
            transcript_calls (trace (handleSend e s)) =
              transcript_calls (trace s) @
              [Appended (painting e),
               Updated (now_thinking e) (image_outcome (trim (dom_input s)) (deciding e s))])
       \<and> (\<not> dom_imageToggle s \<longrightarrow>
            (\<exists>rest. transcript_calls (trace (handleSend e s)) =
               transcript_calls (trace s) @
               [Appended (asked e s), Appended (thinking e)] @ rest))
       \<and> (\<not> dom_imageToggle s \<and> \<not> (saving e s \<and> rejected (save e)) \<longrightarrow>
            transcript_calls (trace (handleSend e s)) =
              transcript_calls (trace s) @
              [Appended (asked e s), Appended (thinking e),
               Updated (now_thinking e) (chat_outcome (chat e))])
       \<and> (dom_imageToggle s \<and> now_thinking e \<notin> mid ` set (messages (entered e s)) \<longrightarrow>
            messages (handleSend e s) =
              messages (entered e s) @
              [\<lparr>mid = now_thinking e, role = Assistant,
                content = image_outcome (trim (dom_input s)) (deciding e s),
                isTransient = False\<rparr>])
       \<and> (\<not> dom_imageToggle s \<and> \<not> (saving e s \<and> rejected (save e)) \<and>
           now_thinking e \<notin> mid ` set (messages (entered e s)) \<and>
           now_thinking e \<noteq> now_user e \<longrightarrow>
            messages (handleSend e s) =
              messages (entered e s) @
              [asked e s,
               \<lparr>mid = now_thinking e, role = Assistant,
                content = chat_outcome (chat e), isTransient = False\<rparr>])"
proof (intro conjI impI)
  assume "dom_imageToggle s"
  then show "transcript_calls (trace (handleSend e s)) =
      transcript_calls (trace s) @
      [Appended (painting e),
       Updated (now_thinking e) (image_outcome (trim (dom_input s)) (deciding e s))]"
    using assms by (rule image_turn_calls [rotated])
next
  assume "\<not> dom_imageToggle s"
  from chat_turn_calls [OF assms this, of e]
  show "\<exists>rest. transcript_calls (trace (handleSend e s)) =
      transcript_calls (trace s) @ [Appended (asked e s), Appended (thinking e)] @ rest"
    by simp
next
  assume "\<not> dom_imageToggle s \<and> \<not> (saving e s \<and> rejected (save e))"
  with chat_turn_calls [OF assms, of e]
  show "transcript_calls (trace (handleSend e s)) =
      transcript_calls (trace s) @
      [Appended (asked e s), Appended (thinking e),
       Updated (now_thinking e) (chat_outcome (chat e))]"
    by auto
next
  assume "dom_imageToggle s \<and> now_thinking e \<notin> mid ` set (messages (entered e s))"
  with image_turn_messages [OF assms, of e]
  show "messages (handleSend e s) =
      messages (entered e s) @
      [\<lparr>mid = now_thinking e, role = Assistant,
        content = image_outcome (trim (dom_input s)) (deciding e s), isTransient = False\<rparr>]"
    by blast
next
  assume "\<not> dom_imageToggle s \<and> \<not> (saving e s \<and> rejected (save e)) \<and>
      now_thinking e \<notin> mid ` set (messages (entered e s)) \<and> now_thinking e \<noteq> now_user e"
  with chat_turn_messages [OF assms, of e]
  show "messages (handleSend e s) =
      messages (entered e s) @
      [asked e s,
       \<lparr>mid = now_thinking e, role = Assistant,
        content = chat_outcome (chat e), isTransient = False\<rparr>]"
    by blast
qed

theorem turn_order_witness:
  "accepted (ready ''Hello'') \<and> \<not> dom_imageToggle (ready ''Hello'')
   \<and> transcript_calls (trace (handleSend (replying ''Hi there'') (ready ''Hello''))) =
        [Appended \<lparr>mid = 2000, role = User, content = ''Hello'', isTransient = False\<rparr>,
         Appended (thinking (replying ''Hi there'')),
         Updated 3000 ''Hi there'']
   \<and> messages (handleSend (replying ''Hi there'') (ready ''Hello'')) =
        [\<lparr>mid = 2000, role = User, content = ''Hello'', isTransient = False\<rparr>,
         \<lparr>mid = 3000, role = Assistant, content = ''Hi there'', isTransient = False\<rparr>]"
proof -
  have a: "accepted (ready ''Hello'')" "\<not> dom_imageToggle (ready ''Hello'')"
    by (simp_all add: accepted_def ready_def initial_def trim_def is_space_def)
  have once: "\<not> (saving (replying ''Hi there'') (ready ''Hello'') \<and>
                 rejected (save (replying ''Hi there'')))"
    by (simp add: saving_def ready_def initial_def)
  have fresh:
    "now_thinking (replying ''Hi there'') \<notin>
       mid ` set (messages (entered (replying ''Hi there'') (ready ''Hello'')))"
    "now_thinking (replying ''Hi there'') \<noteq> now_user (replying ''Hi there'')"
    by (simp_all add: entered_eq no_session_def ready_def initial_def replying_def unanswered_def)
  from turn_order_on_transcript [OF a(1), of "replying ''Hi there''"] a(2) once fresh
  have "transcript_calls (trace (handleSend (replying ''Hi there'') (ready ''Hello''))) =
          transcript_calls (trace (ready ''Hello'')) @
          [Appended (asked (replying ''Hi there'') (ready ''Hello'')),
           Appended (thinking (replying ''Hi there'')),
           Updated (now_thinking (replying ''Hi there'')) (chat_outcome (chat (replying ''Hi there'')))]"
    and "messages (handleSend (replying ''Hi there'') (ready ''Hello'')) =
          messages (entered (replying ''Hi there'') (ready ''Hello'')) @
          [asked (replying ''Hi there'') (ready ''Hello''),
           \<lparr>mid = now_thinking (replying ''Hi there''), role = Assistant,
             content = chat_outcome (chat (replying ''Hi there'')), isTransient = False\<rparr>]"
    by blast+
  then show ?thesis
    using a
    by (simp add: ready_def initial_def replying_def unanswered_def trim_def is_space_def
        asked_def chat_outcome_def reply_content_def or_else_def entered_eq no_session_def
        views)
qed

theorem image_turn_appends_no_user_message:
  "accepted painter \<and> dom_imageToggle painter
   \<and> transcript_calls (trace (handleSend painted painter)) =
        [Appended (painting painted),
         Updated 3000 ''![Generated Image](/images/fox.png)\<newline>\<newline>Prompt: *a red fox*'']
   \<and> accepted scripter \<and> \<not> dom_imageToggle scripter
   \<and> transcript_calls (trace (handleSend unsaved scripter)) =
        [Appended \<lparr>mid = 2000, role = User, content = ''print one'', isTransient = False\<rparr>,
         Appended (thinking unsaved),
         Updated 3000 ''print(1)'',
         Updated 3000 ''## Connection Error\<newline>Failed to fetch'']"
proof -
  have p: "accepted painter" "dom_imageToggle painter"
    by (simp_all add: accepted_def painter_def ready_def initial_def trim_def is_space_def)
  have q: "accepted scripter" "\<not> dom_imageToggle scripter"
    by (simp_all add: accepted_def scripter_def ready_def initial_def trim_def is_space_def)
  have "transcript_calls (trace (handleSend painted painter)) =
        [Appended (painting painted),
         Updated 3000 ''![Generated Image](/images/fox.png)\<newline>\<newline>Prompt: *a red fox*'']"
    by (subst image_turn_calls [OF p])
      (simp add: painter_def painted_def unanswered_def ready_def initial_def trim_def
        is_space_def deciding_def retried_def is_status_def image_outcome_def ok_def
        image_ok_def js_str_def truthy_def views painting_def)
  moreover have "transcript_calls (trace (handleSend unsaved scripter)) =
        [Appended \<lparr>mid = 2000, role = User, content = ''print one'', isTransient = False\<rparr>,
         Appended (thinking unsaved),
         Updated 3000 ''print(1)'',
         Updated 3000 ''## Connection Error\<newline>Failed to fetch'']"
    by (subst chat_turn_calls [OF q])
      (simp add: scripter_def unsaved_def replying_def unanswered_def ready_def initial_def
        trim_def is_space_def saving_def answered_def rejected_def save_error_def
        chat_outcome_def reply_content_def or_else_def connection_error_def views asked_def
        thinking_def)
  ultimately show ?thesis
    using p q by simp
qed


section \<open>The end of a turn\<close>

lemma retitle_simps:
  "sid (retitle ms x) = sid x"
  "smessages (retitle ms x) = smessages x"
  "title (retitle ms x) =
     (case ms of [] \<Rightarrow> title x
      | m # _ \<Rightarrow> if title x = ''New Session'' then take 30 (content m) else title x)"
  by (simp_all add: retitle_def split: list.splits)

lemma recorded_current:
  assumes "find (is_current cur) xs = Some x"
  shows "find (is_current cur) (recorded cur ms xs) = Some (retitle ms (x\<lparr>smessages := ms\<rparr>))"
  using assms
  by (induction xs) (auto simp: recorded_def is_current_def retitle_simps split: if_splits)

lemma find_append_miss:
  "\<forall>x\<in>set xs. \<not> P x \<Longrightarrow> find P (xs @ ys) = find P ys"
  by (induction xs) simp_all

lemma mirrored_fresh:
  assumes "i \<notin> mid ` set ms" and "sh \<le> length ms" and "mid m = i"
  shows "mirrored cur sh (ms @ [m]) i c xs = xs"
proof -
  have miss: "\<forall>x\<in>set ms. mid x \<noteq> i"
    using assms(1) by auto
  then have "find (\<lambda>m. mid m = i) (ms @ [m]) = Some m"
    using assms(3) by (simp add: find_append_miss)
  moreover have "takeWhile (\<lambda>m. mid m \<noteq> i) (ms @ [m]) = ms"
    using miss assms(3) by (simp add: takeWhile_append2)
  ultimately show ?thesis
    using assms(2) by (simp add: mirrored_def)
qed

text \<open>
  The chat branch ends every accepted turn, whatever the reply was, with the bookkeeping
  the specification calls \<open>recordTurn\<close>: the flag is cleared, the active session (the
  first one with the current id) receives the transcript and, if it still has the default
  title, the first thirty characters of the first message as its title, and the registry
  is pushed to the backend, unless a probe has found the connection lost in the meantime.
\<close>

lemma chat_turn_is_recorded:
  assumes "accepted s" and "\<not> dom_imageToggle s"
    and "find (is_current (currentSessionId (entered e s))) (sessions (entered e s)) = Some x"
  shows "\<not> isThinking (handleSend e s)"
    and "find (is_current (currentSessionId (handleSend e s))) (sessions (handleSend e s)) =
           Some (retitle (messages (handleSend e s)) (x\<lparr>smessages := messages (handleSend e s)\<rparr>))"
    and "persists (trace (handleSend e s)) =
           persists (trace (entered e s)) @
           (if isConnected (handleSend e s) then [sessions (handleSend e s)] else [])"
proof -
  have run: "handleSend e s = handleSend_chat (trim (dom_input s)) e (entered e s)"
    using assms(1,2) by (simp add: handleSend_accepted)
  show "\<not> isThinking (handleSend e s)"
    by (simp add: run flags_handleSend_chat)
  show "find (is_current (currentSessionId (handleSend e s))) (sessions (handleSend e s)) =
           Some (retitle (messages (handleSend e s)) (x\<lparr>smessages := messages (handleSend e s)\<rparr>))"
    unfolding run
    by (subst sessions_handleSend_chat) (simp add: flags_handleSend_chat recorded_current [OF assms(3)])
  show "persists (trace (handleSend e s)) =
           persists (trace (entered e s)) @
           (if isConnected (handleSend e s) then [sessions (handleSend e s)] else [])"
    by (simp add: trace_chat_turn [OF assms(1,2)] views assms(3) chat_request_def)
qed

text \<open>
  The image branch does none of it. When the clock reading taken for the placeholder is
  not the id of an older message, the registry is as it was when the branch began (the
  first \<open>shared\<close> entries of the transcript are the ones the active session holds too, so
  there are no more of them than the transcript has entries).
\<close>

lemma image_turn_leaves_registry:
  assumes "accepted s" and "dom_imageToggle s"
    and "now_thinking e \<notin> mid ` set (messages (entered e s))"
    and "shared (entered e s) \<le> length (messages (entered e s))"
  shows "sessions (handleSend e s) = sessions (entered e s)"
    and "persists (trace (handleSend e s)) = persists (trace (entered e s))"
proof -
  show "sessions (handleSend e s) = sessions (entered e s)"
    using assms(1,2) mirrored_fresh [OF assms(3,4), of "painting e"]
    by (simp add: handleSend_accepted sessions_handleSend_image painting_def)
  show "persists (trace (handleSend e s)) = persists (trace (entered e s))"
    by (simp add: trace_image_turn [OF assms(1,2)] views)
qed

text \<open>
  When the placeholder takes the id of a message that the active session holds as well,
  \<open>updateMessage\<close> finds that message, and the session sees it rewritten: the two arrays
  share their message objects. Nothing is pushed to the backend.
\<close>

lemma image_turn_rewrites_shared_message:
  "sessions (handleSend absent_model repainter) =
     [\<lparr>sid = ''400'', title = ''a blue bird'', timestamp = ''2024-01-01T00:00:00.000Z'',
       smessages = [\<lparr>mid = 3000, role = Assistant,
                     content = ''## Image Gen Failed\<newline>out of memory'',
                     isTransient = False\<rparr>]\<rparr>]
   \<and> persists (trace (handleSend absent_model repainter)) = []"
proof -
  have q: "accepted repainter" "dom_imageToggle repainter"
    by (simp_all add: accepted_def repainter_def painter_def ready_def initial_def trim_def
        is_space_def)
  have run: "handleSend absent_model repainter =
      handleSend_image (trim (dom_input repainter)) absent_model (entered absent_model repainter)"
    using q by (simp add: handleSend_accepted)
  have "sessions (handleSend absent_model repainter) =
     [\<lparr>sid = ''400'', title = ''a blue bird'', timestamp = ''2024-01-01T00:00:00.000Z'',
       smessages = [\<lparr>mid = 3000, role = Assistant,
                     content = ''## Image Gen Failed\<newline>out of memory'',
                     isTransient = False\<rparr>]\<rparr>]"
    by (subst run, subst sessions_handleSend_image)
      (simp add: repainter_def painter_def absent_model_def unanswered_def ready_def
        initial_def trim_def is_space_def retried_def is_status_def deciding_def
        image_outcome_def ok_def image_failed_def or_else_def entered_eq no_session_def
        painting_def mirrored_def is_current_def)
  moreover have "persists (trace (handleSend absent_model repainter)) = []"
    by (subst trace_image_turn [OF q])
      (simp add: repainter_def painter_def ready_def initial_def views entered_eq
        no_session_def)
  ultimately show ?thesis
    by simp
qed

text \<open>
  Claim C1. Every dispatched turn, in the image branch as in the chat branch, is said to
  end by clearing the Thinking flag and recording the turn: the transcript is copied into
  the active session, the default title is rewritten from the first message, and the
  registry is persisted. The chat branch does so (\<open>chat_turn_is_recorded\<close>). The image
  branch clears the flag and returns: after a successful image turn in a new session the
  transcript holds the image, while the session still has no messages and its default
  title, and the only registry pushed to the backend is the one sent when the session was
  created.
\<close>

theorem image_turn_is_not_recorded:
  "accepted painter \<and> dom_imageToggle painter
   \<and> isThinking (handleSend painted painter) = False
   \<and> messages (handleSend painted painter) =
        [\<lparr>mid = 3000, role = Assistant,
          content = ''![Generated Image](/images/fox.png)\<newline>\<newline>Prompt: *a red fox*'',
          isTransient = False\<rparr>]
   \<and> currentSessionId (handleSend painted painter) = Some ''1000''
   \<and> sessions (handleSend painted painter) =
        [\<lparr>sid = ''1000'', title = ''New Session'', timestamp = ''2024-01-01T00:00:00.000Z'',
          smessages = []\<rparr>]
   \<and> persists (trace (handleSend painted painter)) =
        [[\<lparr>sid = ''1000'', title = ''New Session'', timestamp = ''2024-01-01T00:00:00.000Z'',
           smessages = []\<rparr>]]"
proof -
  have p: "accepted painter" "dom_imageToggle painter"
    by (simp_all add: accepted_def painter_def ready_def initial_def trim_def is_space_def)
  have run: "handleSend painted painter = handleSend_image ''a red fox'' painted (entered painted painter)"
    using p by (simp add: handleSend_accepted) (simp add: painter_def ready_def initial_def trim_def is_space_def)
  have start: "entered painted painter =
      painter\<lparr>sessions := [\<lparr>sid = ''1000'', title = ''New Session'',
                  timestamp = ''2024-01-01T00:00:00.000Z'', smessages = []\<rparr>],
              currentSessionId := Some ''1000'', messages := [], isThinking := True,
              dom_input := [], dom_sendDisabled := True, shared := 0,
              trace := [Sent (SaveSessions [\<lparr>sid = ''1000'', title = ''New Session'',
                  timestamp = ''2024-01-01T00:00:00.000Z'', smessages = []\<rparr>])]\<rparr>"
    by (simp add: entered_eq no_session_def painter_def painted_def unanswered_def ready_def
        initial_def toString_1000)
  have "isThinking (handleSend painted painter) = False"
    by (subst run) (simp add: flags_handleSend_image)
  moreover have "messages (handleSend painted painter) =
        [\<lparr>mid = 3000, role = Assistant,
          content = ''![Generated Image](/images/fox.png)\<newline>\<newline>Prompt: *a red fox*'',
          isTransient = False\<rparr>]"
    by (subst run, subst messages_handleSend_image, subst start)
      (simp add: deciding_def retried_def is_status_def
        painted_def unanswered_def painter_def ready_def initial_def image_outcome_def ok_def
        image_ok_def js_str_def truthy_def painting_def replaced_def)
  moreover have "currentSessionId (handleSend painted painter) = Some ''1000''"
    by (subst run, subst flags_handleSend_image, subst start) simp
  moreover have "sessions (handleSend painted painter) =
        [\<lparr>sid = ''1000'', title = ''New Session'', timestamp = ''2024-01-01T00:00:00.000Z'',
          smessages = []\<rparr>]"
    by (subst run, subst sessions_handleSend_image)
      (simp add: start mirrored_def painting_def)
  moreover have "persists (trace (handleSend painted painter)) =
        [[\<lparr>sid = ''1000'', title = ''New Session'', timestamp = ''2024-01-01T00:00:00.000Z'',
           smessages = []\<rparr>]]"
    by (subst run, subst trace_handleSend_image, subst start) (simp add: views)
  ultimately show ?thesis
    using p by simp
qed

end
